theory Spec2Isabelle
  imports Complex_Main
begin

section \<open>Numbers, arrays and errors\<close>

text \<open>
  The module \<^verbatim>\<open>bayesquad/gps.py\<close> computes with numpy arrays of floats. Floats are
  idealised as \<^typ>\<open>real\<close>: rounding, infinities and NaN are outside the model. In
  particular \<^verbatim>\<open>np.sqrt\<close> of a negative number is NaN in numpy while \<^const>\<open>sqrt\<close> is the
  odd extension; every concrete state written out below has square roots of positive
  numbers only.

  The warp offset \<^verbatim>\<open>self._alpha\<close> is a Python object, and \<^verbatim>\<open>update\<close> tests it with
  \<^verbatim>\<open>is not\<close>. Two kinds of object occur: a numpy scalar (\<^verbatim>\<open>np.float64\<close>), which the
  builtin \<^verbatim>\<open>min\<close> cannot iterate over, and an array of shape \<^verbatim>\<open>(1,)\<close>, a row of an
  array of shape \<^verbatim>\<open>(n, 1)\<close>, which it can.
\<close>

datatype pynum = Scalar real | Row real

fun value_of :: "pynum \<Rightarrow> real" where
  "value_of (Scalar r) = r"
| "value_of (Row r) = r"

text \<open>\<^verbatim>\<open>c * obj\<close> for a Python float \<^verbatim>\<open>c\<close>: the result has the kind of \<^verbatim>\<open>obj\<close>.\<close>

fun scale :: "real \<Rightarrow> pynum \<Rightarrow> pynum" where
  "scale c (Scalar r) = Scalar (c * r)"
| "scale c (Row r) = Row (c * r)"

text \<open>
  The argument \<^verbatim>\<open>x\<close> of \<^verbatim>\<open>update\<close> and \<^verbatim>\<open>fantasise\<close> is a 1D array (one point) or a 2D
  array (one point per row). Points are values of a type \<open>'p\<close>: that all points have
  the dimensionality of the model is a matter of typing here. An array of shape
  \<^verbatim>\<open>(n, 1)\<close>, such as the training targets, is the list of its \<open>n\<close> entries.

  The argument \<^verbatim>\<open>y\<close> is a Python float or an array of any shape, given by its shape and
  its entries in row-major order.
\<close>

datatype 'p xin = X1D 'p | X2D "'p list"

datatype yin = YFloat real | YArray "nat list" "real list"

fun wf_yin :: "yin \<Rightarrow> bool" where
  "wf_yin (YFloat v) = True"
| "wf_yin (YArray shape entries) = (prod_list shape = length entries)"

fun y_size :: "yin \<Rightarrow> nat" where
  "y_size (YFloat v) = 1"
| "y_size (YArray shape entries) = prod_list shape"

datatype error =
  ValueError_points nat nat
| ValueError_concatenate
| TypeError_min
| DimensionError

text \<open>\<^verbatim>\<open>np.atleast_2d(x)\<close>: a 1D array becomes an array of one row.\<close>

fun atleast_2d :: "'p xin \<Rightarrow> 'p list" where
  "atleast_2d (X1D p) = [p]"
| "atleast_2d (X2D ps) = ps"

text \<open>
  \<^verbatim>\<open>if not isinstance(y, ndarray): y = np.array(y)\<close> followed by \<^verbatim>\<open>y.reshape(-1, 1)\<close>:
  the entries in row-major order, as one column.
\<close>

fun reshape_column :: "yin \<Rightarrow> real list" where
  "reshape_column (YFloat v) = [v]"
| "reshape_column (YArray shape entries) = entries"

definition validate_and_transform_for_gpy_update ::
  "'p xin \<Rightarrow> yin \<Rightarrow> error + ('p list \<times> real list)" where
  "validate_and_transform_for_gpy_update x y =
     (let x' = atleast_2d x;
          y' = reshape_column y;
          x_points = length x';
          y_points = length y'
      in if x_points \<noteq> y_points then Inl (ValueError_points x_points y_points)
         else Inr (x', y'))"

text \<open>
  \<^verbatim>\<open>np.concatenate\<close> of a Python list of arrays raises a \<^verbatim>\<open>ValueError\<close> on the empty
  list. (That the arrays agree in their other dimensions is given by the typing.)
\<close>

definition np_concatenate :: "'a list list \<Rightarrow> error + 'a list" where
  "np_concatenate arrays =
     (if arrays = [] then Inl ValueError_concatenate else Inr (concat arrays))"

subsection \<open>The builtin \<^verbatim>\<open>min\<close>\<close>

text \<open>
  \<^verbatim>\<open>min(a0, a1, ..., an)\<close> with at least two arguments keeps a current object, at first
  \<^verbatim>\<open>a0\<close>, and replaces it by an argument only where \<^verbatim>\<open>item < current\<close> holds, so among
  equal values the earliest argument is returned. The arguments are distinct objects;
  the position of the returned argument stands for its identity.
\<close>

fun min_scan :: "nat \<times> real \<Rightarrow> (nat \<times> real) list \<Rightarrow> nat \<times> real" where
  "min_scan current [] = current"
| "min_scan current (item # items) =
     min_scan (if snd item < snd current then item else current) items"

definition py_min :: "real \<Rightarrow> real list \<Rightarrow> nat \<times> real" where
  "py_min a0 rest = min_scan (0, a0) (enumerate 1 rest)"

text \<open>
  \<open>times_array c y\<close> is \<^verbatim>\<open>c * y\<close> for a float \<^verbatim>\<open>c\<close> and a column \<^verbatim>\<open>y\<close>.
  \<^verbatim>\<open>new_min = min(self._alpha, *(0.8 * y))\<close> for the column \<^verbatim>\<open>y\<close>, together with the
  test \<^verbatim>\<open>new_min is self._alpha\<close>. The rows of the fresh array \<^verbatim>\<open>0.8 * y\<close> are arrays of
  shape \<^verbatim>\<open>(1,)\<close>. When \<^verbatim>\<open>y\<close> has no rows the call is \<^verbatim>\<open>min(self._alpha)\<close>, which
  iterates over its one argument: over an array of shape \<^verbatim>\<open>(1,)\<close> it returns the entry, a
  new numpy scalar; a numpy scalar is not iterable and the call raises a
  \<^verbatim>\<open>TypeError\<close>.
\<close>

definition times_array :: "real \<Rightarrow> real list \<Rightarrow> real list" where
  "times_array c y = map (\<lambda>u. c * u) y"

definition new_min_of :: "pynum \<Rightarrow> real list \<Rightarrow> error + (bool \<times> pynum)" where
  "new_min_of a y =
     (case y of
        [] \<Rightarrow> (case a of Row r \<Rightarrow> Inr (False, Scalar r) | Scalar r \<Rightarrow> Inl TypeError_min)
      | _ \<Rightarrow> (let (i, v) = py_min (value_of a) (times_array 0.8 y)
              in if i = 0 then Inr (True, a) else Inr (False, Row v)))"

section \<open>The warped posterior \<^verbatim>\<open>WsabiLGP\<close>\<close>

text \<open>
  The fields of \<^verbatim>\<open>WsabiLGP\<close>, with the training data \<^verbatim>\<open>X\<close>, \<^verbatim>\<open>Y\<close> of the underlying
  GPy model (\<^verbatim>\<open>self._gp.X\<close>, \<^verbatim>\<open>self._gp.Y\<close>, replaced by \<^verbatim>\<open>set_XY\<close>).
\<close>

record 'p wsabi =
  gp_X :: "'p list"
  gp_Y :: "real list"
  alpha :: pynum
  true_alpha :: pynum
  unwarped_Y :: "real list list"
  all_X :: "'p list list"
  fantasy_X :: "'p list list"
  fantasy_Y :: "real list list"

text \<open>
  A method that raises leaves the object as it is at the raise: the result of a method
  is \<open>Inl (e, s)\<close> with the state \<open>s\<close> at the raise, or \<open>Inr s\<close>.
\<close>

type_synonym 'p outcome = "(error \<times> 'p wsabi) + 'p wsabi"

fun state_after :: "'p outcome \<Rightarrow> 'p wsabi" where
  "state_after (Inl (e, s)) = s"
| "state_after (Inr s) = s"

text \<open>
  \<^verbatim>\<open>WsabiLGP.__init__(gp)\<close> for a model holding \<open>X\<close> and \<open>Y\<close>:
  \<^verbatim>\<open>0.8 * min(*(gp.Y**2 / 2))\<close>. With no row \<^verbatim>\<open>min()\<close> raises a \<^verbatim>\<open>TypeError\<close>; with one
  row \<^verbatim>\<open>min\<close> iterates over it and returns a numpy scalar; otherwise it returns a row.
\<close>

definition init :: "'p list \<Rightarrow> real list \<Rightarrow> error + 'p wsabi" where
  "init X Y =
     (let halved = map (\<lambda>v. v\<^sup>2 / 2) Y;
          make = (\<lambda>a. \<lparr>gp_X = X, gp_Y = Y, alpha = a, true_alpha = a,
                       unwarped_Y = [halved], all_X = [X],
                       fantasy_X = [], fantasy_Y = []\<rparr>)
      in case halved of
           [] \<Rightarrow> Inl TypeError_min
         | [u] \<Rightarrow> Inr (make (scale 0.8 (Scalar u)))
         | u # us \<Rightarrow> Inr (make (scale 0.8 (Row (snd (py_min u us))))))"

text \<open>\<^verbatim>\<open>_warp\<close>: \<^verbatim>\<open>np.sqrt(2 * (y - self._alpha))\<close>, entry by entry.\<close>

definition warp :: "'p wsabi \<Rightarrow> real list \<Rightarrow> real list" where
  "warp s y = map (\<lambda>v. sqrt (2 * (v - value_of (alpha s)))) y"

text \<open>\<^verbatim>\<open>GP.update\<close>, on the data of the underlying model.\<close>

definition gp_update :: "'p wsabi \<Rightarrow> 'p xin \<Rightarrow> yin \<Rightarrow> 'p outcome" where
  "gp_update s x y =
     (case validate_and_transform_for_gpy_update x y of
        Inl e \<Rightarrow> Inl (e, s)
      | Inr (x', y') \<Rightarrow> Inr (s\<lparr>gp_X := gp_X s @ x', gp_Y := gp_Y s @ y'\<rparr>))"

definition update_alpha_and_reprocess_data :: "'p wsabi \<Rightarrow> pynum \<Rightarrow> 'p outcome" where
  "update_alpha_and_reprocess_data s a =
     (let s1 = s\<lparr>alpha := a, true_alpha := a\<rparr>
      in case np_concatenate (map (warp s1) (unwarped_Y s1)) of
           Inl e \<Rightarrow> Inl (e, s1)
         | Inr all_warped_Y \<Rightarrow>
             (case np_concatenate (all_X s1) of
                Inl e \<Rightarrow> Inl (e, s1)
              | Inr X \<Rightarrow> Inr (s1\<lparr>gp_X := X, gp_Y := all_warped_Y\<rparr>)))"

definition fantasise_alpha_and_reprocess_data :: "'p wsabi \<Rightarrow> pynum \<Rightarrow> 'p outcome" where
  "fantasise_alpha_and_reprocess_data s a =
     (let s1 = s\<lparr>alpha := a\<rparr>
      in case np_concatenate (map (warp s1) (unwarped_Y s1) @ map (warp s1) (fantasy_Y s1)) of
           Inl e \<Rightarrow> Inl (e, s1)
         | Inr all_warped_Y \<Rightarrow>
             (case np_concatenate (all_X s1 @ fantasy_X s1) of
                Inl e \<Rightarrow> Inl (e, s1)
              | Inr X \<Rightarrow> Inr (s1\<lparr>gp_X := X, gp_Y := all_warped_Y\<rparr>)))"

text \<open>
  The incremental branch shared by \<^verbatim>\<open>update\<close> and \<^verbatim>\<open>fantasise\<close>:
  \<^verbatim>\<open>warped_y = self._warp(y); self._gp.update(x, warped_y)\<close>, where \<^verbatim>\<open>x\<close> is 2D and
  \<^verbatim>\<open>warped_y\<close> has the shape \<^verbatim>\<open>(n, 1)\<close> of \<^verbatim>\<open>y\<close>.
\<close>

definition append_warped :: "'p wsabi \<Rightarrow> 'p list \<Rightarrow> real list \<Rightarrow> 'p outcome" where
  "append_warped s x y = gp_update s (X2D x) (YArray [length y, 1] (warp s y))"

definition update :: "'p wsabi \<Rightarrow> 'p xin \<Rightarrow> yin \<Rightarrow> 'p outcome" where
  "update s x y =
     (case validate_and_transform_for_gpy_update x y of
        Inl e \<Rightarrow> Inl (e, s)
      | Inr (x', y') \<Rightarrow>
          (let s1 = s\<lparr>all_X := all_X s @ [x'], unwarped_Y := unwarped_Y s @ [y']\<rparr>
           in case new_min_of (alpha s1) y' of
                Inl e \<Rightarrow> Inl (e, s1)
              | Inr (is_alpha, new_min) \<Rightarrow>
                  if \<not> is_alpha then update_alpha_and_reprocess_data s1 new_min
                  else append_warped s1 x' y'))"

definition fantasise :: "'p wsabi \<Rightarrow> 'p xin \<Rightarrow> yin \<Rightarrow> 'p outcome" where
  "fantasise s x y =
     (case validate_and_transform_for_gpy_update x y of
        Inl e \<Rightarrow> Inl (e, s)
      | Inr (x', y') \<Rightarrow>
          (let s1 = s\<lparr>fantasy_X := fantasy_X s @ [x'], fantasy_Y := fantasy_Y s @ [y']\<rparr>
           in case new_min_of (alpha s1) y' of
                Inl e \<Rightarrow> Inl (e, s1)
              | Inr (is_alpha, new_min) \<Rightarrow>
                  if \<not> is_alpha then fantasise_alpha_and_reprocess_data s1 new_min
                  else append_warped s1 x' y'))"

definition remove_fantasies :: "'p wsabi \<Rightarrow> 'p outcome" where
  "remove_fantasies s =
     (let s1 = s\<lparr>alpha := true_alpha s\<rparr>
      in case np_concatenate (map (warp s1) (unwarped_Y s1)) of
           Inl e \<Rightarrow> Inl (e, s1)
         | Inr all_warped_Y \<Rightarrow>
             (case np_concatenate (all_X s1) of
                Inl e \<Rightarrow> Inl (e, s1)
              | Inr X \<Rightarrow>
                  Inr (s1\<lparr>gp_X := X, gp_Y := all_warped_Y,
                          fantasy_X := [], fantasy_Y := []\<rparr>)))"

subsection \<open>Sequences of calls\<close>

datatype 'p call = Update "'p xin" yin | Fantasise "'p xin" yin | RemoveFantasies

fun step :: "'p wsabi \<Rightarrow> 'p call \<Rightarrow> 'p wsabi" where
  "step s (Update x y) = state_after (update s x y)"
| "step s (Fantasise x y) = state_after (fantasise s x y)"
| "step s RemoveFantasies = state_after (remove_fantasies s)"

fun run :: "'p wsabi \<Rightarrow> 'p call list \<Rightarrow> 'p wsabi" where
  "run s [] = s"
| "run s (c # cs) = run (step s c) cs"

section \<open>Spec-level definitions\<close>

text \<open>
  Following the words of the specification, not the source:
  \<^verbatim>\<open>candidateAlpha = min(currentAlpha, 0.8 * min(y))\<close>, for a batch \<^verbatim>\<open>y\<close> with at least
  one entry.
\<close>

definition candidate_alpha :: "real \<Rightarrow> real list \<Rightarrow> real" where
  "candidate_alpha current y = min current (0.8 * Min (set y))"

section \<open>Predicates on states and call sequences\<close>

text \<open>The offset \<open>a\<close> is at most 0.8 times every value of every batch.\<close>

definition alpha_bounded_by :: "real \<Rightarrow> real list list \<Rightarrow> bool" where
  "alpha_bounded_by a batches = (\<forall>ys \<in> set batches. \<forall>v \<in> set ys. a \<le> 0.8 * v)"

text \<open>
  The columns that the calls of \<^verbatim>\<open>update\<close> in a sequence append to \<^verbatim>\<open>_unwarped_Y\<close>: one
  for each call whose arguments pass the point-count check.
\<close>

fun accepted_update_batches :: "'p call list \<Rightarrow> real list list" where
  "accepted_update_batches [] = []"
| "accepted_update_batches (Update x y # cs) =
     (case validate_and_transform_for_gpy_update x y of
        Inl e \<Rightarrow> accepted_update_batches cs
      | Inr (x', y') \<Rightarrow> y' # accepted_update_batches cs)"
| "accepted_update_batches (Fantasise x y # cs) = accepted_update_batches cs"
| "accepted_update_batches (RemoveFantasies # cs) = accepted_update_batches cs"

text \<open>
  No call of \<^verbatim>\<open>update\<close> in the sequence is made in a state that holds fantasy batches.
\<close>

fun no_update_over_fantasies :: "'p wsabi \<Rightarrow> 'p call list \<Rightarrow> bool" where
  "no_update_over_fantasies s [] = True"
| "no_update_over_fantasies s (Update x y # cs) =
     (fantasy_Y s = [] \<and> no_update_over_fantasies (step s (Update x y)) cs)"
| "no_update_over_fantasies s (c # cs) = no_update_over_fantasies (step s c) cs"

text \<open>
  Two invariants of the offsets. The first holds in every state built by \<^const>\<open>init\<close>
  and any calls; the second in the states built without a call of \<^verbatim>\<open>update\<close> over
  fantasy batches.
\<close>

definition offsets_inv :: "'p wsabi \<Rightarrow> bool" where
  "offsets_inv s \<longleftrightarrow>
     unwarped_Y s \<noteq> [] \<and> all_X s \<noteq> []
     \<and> value_of (alpha s) \<le> value_of (true_alpha s)
     \<and> alpha_bounded_by (value_of (alpha s)) (fantasy_Y s)"

definition real_bound_inv :: "'p wsabi \<Rightarrow> bool" where
  "real_bound_inv s \<longleftrightarrow>
     alpha_bounded_by (value_of (true_alpha s)) (unwarped_Y s)
     \<and> (fantasy_Y s = [] \<longrightarrow> value_of (alpha s) = value_of (true_alpha s))"

text \<open>
  Following the words of the specification: the model's current training set equals the
  warp, under the current offset, applied to the real history followed by the fantasy
  history.
\<close>

definition warp_consistent :: "'p wsabi \<Rightarrow> bool" where
  "warp_consistent s \<longleftrightarrow>
     gp_X s = concat (all_X s) @ concat (fantasy_X s)
     \<and> gp_Y s = warp s (concat (unwarped_Y s) @ concat (fantasy_Y s))"

section \<open>The posterior engine \<^verbatim>\<open>GP\<close>\<close>

text \<open>
  \<^verbatim>\<open>GP\<close> wraps a GPy model and calls the kernel collaborator. Neither is part of the
  module: what \<^verbatim>\<open>GP\<close> reads from them at a query \<^verbatim>\<open>x\<close> is a parameter, collected in a
  record. Arrays of rank two and more are functions of their indices; the number \<open>N\<close>
  of training points is the length of the targets \<^verbatim>\<open>Y\<close>, an array of shape \<^verbatim>\<open>(N, 1)\<close>.
  \<^item> \<open>valid_dimensions\<close>: \<^verbatim>\<open>validate_dimensions(x, self.dimensions)\<close> does not raise;
  \<^item> \<open>predict\<close>: \<^verbatim>\<open>self._gpy_gp.predict(x)\<close>, two arrays of shape \<^verbatim>\<open>(n, 1)\<close>;
  \<^item> \<open>predictive_gradients\<close>: \<^verbatim>\<open>self._gpy_gp.predictive_gradients(x)\<close>;
  \<^item> \<open>gpy_Y\<close>: \<^verbatim>\<open>self.Y\<close>; \<open>woodbury_inv\<close>: \<^verbatim>\<open>self.posterior.woodbury_inv\<close>;
  \<^item> \<open>kern_K\<close>: \<^verbatim>\<open>self.kern.K(x, X_D)\<close>;
  \<^item> \<open>kernel_jacobian\<close>, \<open>kernel_hessian\<close>, \<open>diagonal_hessian\<close>: the results of
    \<^verbatim>\<open>kernel_gradients.jacobian\<close>, \<^verbatim>\<open>kernel_gradients.hessian\<close> and
    \<^verbatim>\<open>kernel_gradients.diagonal_hessian\<close>.

  The decorators \<^verbatim>\<open>last_value_cache\<close> and \<^verbatim>\<open>flexible_array_dimensions\<close> are not part of
  the module either: the methods are modelled for a 2D query, as they compute.
\<close>

record 'q gp =
  valid_dimensions :: "'q \<Rightarrow> bool"
  predict :: "'q \<Rightarrow> real list \<times> real list"
  predictive_gradients :: "'q \<Rightarrow> (nat \<Rightarrow> nat \<Rightarrow> real) \<times> (nat \<Rightarrow> nat \<Rightarrow> real)"
  gpy_Y :: "real list"
  woodbury_inv :: "nat \<Rightarrow> nat \<Rightarrow> real"
  kern_K :: "'q \<Rightarrow> nat \<Rightarrow> nat \<Rightarrow> real"
  kernel_jacobian :: "'q \<Rightarrow> nat \<Rightarrow> nat \<Rightarrow> nat \<Rightarrow> real"
  kernel_hessian :: "'q \<Rightarrow> nat \<Rightarrow> nat \<Rightarrow> nat \<Rightarrow> nat \<Rightarrow> real"
  diagonal_hessian :: "'q \<Rightarrow> nat \<Rightarrow> nat \<Rightarrow> nat \<Rightarrow> real"

text \<open>
  Modelled from the spec: \<^verbatim>\<open>validate_dimensions\<close> of \<^verbatim>\<open>bayesquad/_util.py\<close>, which is not
  among the sources. A query whose dimensionality does not match the model's fails with
  the dimension error.
\<close>

definition validate_dimensions :: "'q gp \<Rightarrow> 'q \<Rightarrow> error + unit" where
  "validate_dimensions e x = (if valid_dimensions e x then Inr () else Inl DimensionError)"

text \<open>
  \<^verbatim>\<open>GP.posterior_mean_and_variance\<close>. \<^verbatim>\<open>np.squeeze(_, axis=-1)\<close> turns the shape
  \<^verbatim>\<open>(n, 1)\<close> into \<^verbatim>\<open>(n,)\<close>; both are the list of the \<open>n\<close> entries.
\<close>

definition gp_posterior_mean_and_variance ::
  "'q gp \<Rightarrow> 'q \<Rightarrow> error + (real list \<times> real list)" where
  "gp_posterior_mean_and_variance e x =
     (case validate_dimensions e x of
        Inl err \<Rightarrow> Inl err
      | Inr _ \<Rightarrow> (let (mean, variance) = predict e x in Inr (mean, variance)))"

definition gp_posterior_jacobians ::
  "'q gp \<Rightarrow> 'q \<Rightarrow> error + ((nat \<Rightarrow> nat \<Rightarrow> real) \<times> (nat \<Rightarrow> nat \<Rightarrow> real))" where
  "gp_posterior_jacobians e x =
     (case validate_dimensions e x of
        Inl err \<Rightarrow> Inl err
      | Inr _ \<Rightarrow>
          (let (mean_jacobian, variance_jacobian) = predictive_gradients e x
           in Inr (mean_jacobian, variance_jacobian)))"

text \<open>
  The three \<^verbatim>\<open>np.einsum\<close> contractions of \<^verbatim>\<open>posterior_hessians\<close>. A repeated index that
  is not in the output is summed over its range; here these are the indices over the
  \<open>N\<close> training points.
\<close>

definition einsum_ijkl_jm_m_ikl ::
  "nat \<Rightarrow> (nat \<Rightarrow> nat \<Rightarrow> nat \<Rightarrow> nat \<Rightarrow> real) \<Rightarrow> (nat \<Rightarrow> nat \<Rightarrow> real) \<Rightarrow> (nat \<Rightarrow> real)
     \<Rightarrow> nat \<Rightarrow> nat \<Rightarrow> nat \<Rightarrow> real" where
  "einsum_ijkl_jm_m_ikl N A B c = (\<lambda>i k l. \<Sum>j<N. \<Sum>m<N. A i j k l * B j m * c m)"

definition einsum_iljk_lm_im_ijk ::
  "nat \<Rightarrow> (nat \<Rightarrow> nat \<Rightarrow> nat \<Rightarrow> nat \<Rightarrow> real) \<Rightarrow> (nat \<Rightarrow> nat \<Rightarrow> real) \<Rightarrow> (nat \<Rightarrow> nat \<Rightarrow> real)
     \<Rightarrow> nat \<Rightarrow> nat \<Rightarrow> nat \<Rightarrow> real" where
  "einsum_iljk_lm_im_ijk N A B C = (\<lambda>i j k. \<Sum>l<N. \<Sum>m<N. A i l j k * B l m * C i m)"

definition einsum_ilj_lm_imk_ijk ::
  "nat \<Rightarrow> (nat \<Rightarrow> nat \<Rightarrow> nat \<Rightarrow> real) \<Rightarrow> (nat \<Rightarrow> nat \<Rightarrow> real) \<Rightarrow> (nat \<Rightarrow> nat \<Rightarrow> nat \<Rightarrow> real)
     \<Rightarrow> nat \<Rightarrow> nat \<Rightarrow> nat \<Rightarrow> real" where
  "einsum_ilj_lm_imk_ijk N A B C = (\<lambda>i j k. \<Sum>l<N. \<Sum>m<N. A i l j * B l m * C i m k)"

text \<open>\<^verbatim>\<open>np.swapaxes(_, -1, -2)\<close> of an array of rank three.\<close>

definition swapaxes_last :: "(nat \<Rightarrow> nat \<Rightarrow> nat \<Rightarrow> real) \<Rightarrow> nat \<Rightarrow> nat \<Rightarrow> nat \<Rightarrow> real" where
  "swapaxes_last T = (\<lambda>i j k. T i k j)"

text \<open>The local variables of \<^verbatim>\<open>GP.posterior_hessians\<close>, in the order of the source.\<close>

definition Y_D :: "'q gp \<Rightarrow> nat \<Rightarrow> real" where
  "Y_D e = (\<lambda>m. gpy_Y e ! m)"

definition mean_hessian :: "'q gp \<Rightarrow> 'q \<Rightarrow> nat \<Rightarrow> nat \<Rightarrow> nat \<Rightarrow> real" where
  "mean_hessian e x =
     einsum_ijkl_jm_m_ikl (length (gpy_Y e)) (kernel_hessian e x) (woodbury_inv e) (Y_D e)"

definition data_dependent_hessian_half :: "'q gp \<Rightarrow> 'q \<Rightarrow> nat \<Rightarrow> nat \<Rightarrow> nat \<Rightarrow> real" where
  "data_dependent_hessian_half e x =
     (\<lambda>i j k.
        einsum_iljk_lm_im_ijk (length (gpy_Y e)) (kernel_hessian e x) (woodbury_inv e)
          (kern_K e x) i j k
        + einsum_ilj_lm_imk_ijk (length (gpy_Y e)) (kernel_jacobian e x) (woodbury_inv e)
            (kernel_jacobian e x) i j k)"

definition data_dependent_hessian :: "'q gp \<Rightarrow> 'q \<Rightarrow> nat \<Rightarrow> nat \<Rightarrow> nat \<Rightarrow> real" where
  "data_dependent_hessian e x =
     (\<lambda>i j k. data_dependent_hessian_half e x i j k
              + swapaxes_last (data_dependent_hessian_half e x) i j k)"

definition variance_hessian :: "'q gp \<Rightarrow> 'q \<Rightarrow> nat \<Rightarrow> nat \<Rightarrow> nat \<Rightarrow> real" where
  "variance_hessian e x =
     (\<lambda>i j k. diagonal_hessian e x i j k - data_dependent_hessian e x i j k)"

definition posterior_hessians ::
  "'q gp \<Rightarrow> 'q \<Rightarrow> error + ((nat \<Rightarrow> nat \<Rightarrow> nat \<Rightarrow> real) \<times> (nat \<Rightarrow> nat \<Rightarrow> nat \<Rightarrow> real))" where
  "posterior_hessians e x =
     (case validate_dimensions e x of
        Inl err \<Rightarrow> Inl err
      | Inr _ \<Rightarrow> Inr (mean_hessian e x, variance_hessian e x))"

section \<open>The warped posterior: queries\<close>

text \<open>
  \<^verbatim>\<open>WsabiLGP.posterior_mean_and_variance\<close>:
  \<^verbatim>\<open>mean = self._alpha + gp_mean ** 2 / 2\<close> and \<^verbatim>\<open>variance = gp_variance * gp_mean ** 2\<close>,
  entry by entry on two arrays of one shape.
\<close>

definition posterior_mean_and_variance ::
  "'q gp \<Rightarrow> 'p wsabi \<Rightarrow> 'q \<Rightarrow> error + (real list \<times> real list)" where
  "posterior_mean_and_variance e s x =
     (case gp_posterior_mean_and_variance e x of
        Inl err \<Rightarrow> Inl err
      | Inr (gp_mean, gp_variance) \<Rightarrow>
          Inr (map (\<lambda>m. value_of (alpha s) + m\<^sup>2 / 2) gp_mean,
               map2 (\<lambda>v m. v * m\<^sup>2) gp_variance gp_mean))"

text \<open>
  Modelled from the spec: \<^verbatim>\<open>hessian_of_f_squared_times_g\<close> of
  \<^verbatim>\<open>bayesquad/maths_helpers.py\<close>, which is not among the sources. For each point and each
  pair of dimensions \<open>(j, k)\<close>:
  \<open>2g (fJac\<^sub>j fJac\<^sub>k + f fHess\<^sub>j\<^sub>k) + 2f (fJac\<^sub>j gJac\<^sub>k + fJac\<^sub>k gJac\<^sub>j) + f\<^sup>2 gHess\<^sub>j\<^sub>k\<close>.
\<close>

definition hessian_of_f_squared_times_g ::
  "(nat \<Rightarrow> real) \<Rightarrow> (nat \<Rightarrow> nat \<Rightarrow> real) \<Rightarrow> (nat \<Rightarrow> nat \<Rightarrow> nat \<Rightarrow> real)
     \<Rightarrow> (nat \<Rightarrow> real) \<Rightarrow> (nat \<Rightarrow> nat \<Rightarrow> real) \<Rightarrow> (nat \<Rightarrow> nat \<Rightarrow> nat \<Rightarrow> real)
     \<Rightarrow> nat \<Rightarrow> nat \<Rightarrow> nat \<Rightarrow> real" where
  "hessian_of_f_squared_times_g f f_jacobian f_hessian g g_jacobian g_hessian =
     (\<lambda>i j k.
        2 * g i * (f_jacobian i j * f_jacobian i k + f i * f_hessian i j k)
        + 2 * f i * (f_jacobian i j * g_jacobian i k + f_jacobian i k * g_jacobian i j)
        + (f i)\<^sup>2 * g_hessian i j k)"

text \<open>
  \<^verbatim>\<open>WsabiLGP.posterior_variance_hessian\<close>: the three queries of the engine, in the order
  of the source, then the helper.
\<close>

definition posterior_variance_hessian ::
  "'q gp \<Rightarrow> 'q \<Rightarrow> error + (nat \<Rightarrow> nat \<Rightarrow> nat \<Rightarrow> real)" where
  "posterior_variance_hessian e x =
     (case gp_posterior_mean_and_variance e x of
        Inl err \<Rightarrow> Inl err
      | Inr (gp_mean, gp_variance) \<Rightarrow>
          (case gp_posterior_jacobians e x of
             Inl err \<Rightarrow> Inl err
           | Inr (gp_mean_jacobian, gp_variance_jacobian) \<Rightarrow>
               (case posterior_hessians e x of
                  Inl err \<Rightarrow> Inl err
                | Inr (gp_mean_hessian, gp_variance_hessian) \<Rightarrow>
                    Inr (hessian_of_f_squared_times_g
                           (\<lambda>i. gp_mean ! i) gp_mean_jacobian gp_mean_hessian
                           (\<lambda>i. gp_variance ! i) gp_variance_jacobian gp_variance_hessian))))"

section \<open>Spec-level definitions: the hessians\<close>

text \<open>
  Following the words of the specification: \<open>(Kinv Yd)[j]\<close>,
  \<open>meanHessian[i,k,l] = \<Sum>j. H[i,j,k,l] (Kinv Yd)[j]\<close>,
  \<open>Q[i,j,k] = \<Sum>l,m. H[i,l,j,k] Kinv[l,m] K*[i,m] + \<Sum>l,m. J[i,l,j] Kinv[l,m] J[i,m,k]\<close> and
  \<open>varianceHessian[i,j,k] = diagonalHessian[i,j,k] - (Q[i,j,k] + Q[i,k,j])\<close>.
\<close>

definition spec_Kinv_Yd :: "nat \<Rightarrow> (nat \<Rightarrow> nat \<Rightarrow> real) \<Rightarrow> (nat \<Rightarrow> real) \<Rightarrow> nat \<Rightarrow> real" where
  "spec_Kinv_Yd N Kinv Yd j = (\<Sum>m<N. Kinv j m * Yd m)"

definition spec_mean_hessian ::
  "nat \<Rightarrow> (nat \<Rightarrow> nat \<Rightarrow> nat \<Rightarrow> nat \<Rightarrow> real) \<Rightarrow> (nat \<Rightarrow> nat \<Rightarrow> real) \<Rightarrow> (nat \<Rightarrow> real)
     \<Rightarrow> nat \<Rightarrow> nat \<Rightarrow> nat \<Rightarrow> real" where
  "spec_mean_hessian N H Kinv Yd i k l = (\<Sum>j<N. H i j k l * spec_Kinv_Yd N Kinv Yd j)"

definition spec_Q ::
  "nat \<Rightarrow> (nat \<Rightarrow> nat \<Rightarrow> nat \<Rightarrow> nat \<Rightarrow> real) \<Rightarrow> (nat \<Rightarrow> nat \<Rightarrow> nat \<Rightarrow> real) \<Rightarrow> (nat \<Rightarrow> nat \<Rightarrow> real)
     \<Rightarrow> (nat \<Rightarrow> nat \<Rightarrow> real) \<Rightarrow> nat \<Rightarrow> nat \<Rightarrow> nat \<Rightarrow> real" where
  "spec_Q N H J Kinv Kstar i j k =
     (\<Sum>(l, m) \<in> {..<N} \<times> {..<N}. H i l j k * Kinv l m * Kstar i m)
     + (\<Sum>(l, m) \<in> {..<N} \<times> {..<N}. J i l j * Kinv l m * J i m k)"

definition spec_variance_hessian ::
  "nat \<Rightarrow> (nat \<Rightarrow> nat \<Rightarrow> nat \<Rightarrow> real) \<Rightarrow> (nat \<Rightarrow> nat \<Rightarrow> nat \<Rightarrow> nat \<Rightarrow> real)
     \<Rightarrow> (nat \<Rightarrow> nat \<Rightarrow> nat \<Rightarrow> real) \<Rightarrow> (nat \<Rightarrow> nat \<Rightarrow> real) \<Rightarrow> (nat \<Rightarrow> nat \<Rightarrow> real)
     \<Rightarrow> nat \<Rightarrow> nat \<Rightarrow> nat \<Rightarrow> real" where
  "spec_variance_hessian N D H J Kinv Kstar i j k =
     D i j k - (spec_Q N H J Kinv Kstar i j k + spec_Q N H J Kinv Kstar i k j)"

section \<open>The builtin \<^verbatim>\<open>min\<close>: value and identity of the result\<close>

lemma min_scan_value: "snd (min_scan current items) = Min (insert (snd current) (snd ` set items))"
proof (induction items arbitrary: current)
  case Nil
  then show ?case by simp
next
  case (Cons item items)
  have "Min (insert (snd current) (snd ` set (item # items)))
      = Min (insert (min (snd item) (snd current)) (snd ` set items))"
  proof (cases "items = []")
    case True
    then show ?thesis by (simp add: min.commute)
  next
    case False
    then have ne: "snd ` set items \<noteq> {}" by simp
    have "Min (insert (snd current) (insert (snd item) (snd ` set items)))
        = min (snd current) (min (snd item) (Min (snd ` set items)))"
      using ne by simp
    also have "\<dots> = min (min (snd item) (snd current)) (Min (snd ` set items))"
      by (simp add: min.left_commute min.assoc)
    also have "\<dots> = Min (insert (min (snd item) (snd current)) (snd ` set items))"
      using ne by simp
    finally show ?thesis by simp
  qed
  then show ?case using Cons.IH [of "if snd item < snd current then item else current"]
    by (simp add: min_def)
qed

lemma min_scan_later: 
  "fst current \<noteq> 0 \<Longrightarrow> \<forall>item \<in> set items. fst item \<noteq> 0 \<Longrightarrow> fst (min_scan current items) \<noteq> 0"
  by (induction items arbitrary: current) auto

lemma min_scan_first:
  "\<forall>item \<in> set items. fst item \<noteq> 0 \<Longrightarrow>
   fst (min_scan (0, a) items) = 0 \<longleftrightarrow> (\<forall>item \<in> set items. a \<le> snd item)"
proof (induction items)
  case Nil
  then show ?case by simp
next
  case (Cons item items)
  show ?case
  proof (cases "snd item < a")
    case True
    then have "fst (min_scan (0, a) (item # items)) \<noteq> 0"
      using Cons.prems min_scan_later [of item items] by simp
    then show ?thesis using True by auto
  next
    case False
    then show ?thesis using Cons by auto
  qed
qed

lemma enumerate_fst_pos: "\<forall>item \<in> set (enumerate (Suc n) xs). fst item \<noteq> 0"
  by (auto simp: in_set_enumerate_eq)

lemma snd_set_enumerate: "snd ` set (enumerate n xs) = set xs"
  by (metis map_snd_enumerate set_map)

lemma py_min_value: "snd (py_min a rest) = Min (insert a (set rest))"
  by (simp add: py_min_def min_scan_value snd_set_enumerate)

lemma py_min_first: "fst (py_min a rest) = 0 \<longleftrightarrow> (\<forall>v \<in> set rest. a \<le> v)"
proof -
  have "fst (py_min a rest) = 0 \<longleftrightarrow> (\<forall>item \<in> set (enumerate 1 rest). a \<le> snd item)"
    unfolding py_min_def using enumerate_fst_pos [of 0 rest] by (intro min_scan_first) simp
  also have "\<dots> \<longleftrightarrow> (\<forall>v \<in> snd ` set (enumerate 1 rest). a \<le> v)" by blast
  also have "\<dots> \<longleftrightarrow> (\<forall>v \<in> set rest. a \<le> v)" by (simp only: snd_set_enumerate)
  finally show ?thesis .
qed

lemma Min_times_array:
  "y \<noteq> [] \<Longrightarrow> Min (set (times_array 0.8 y)) = 0.8 * Min (set y)"
  unfolding times_array_def set_map
  by (rule mono_Min_commute [symmetric]) (auto simp: mono_def)

lemma new_min_of_rows:
  "y \<noteq> [] \<Longrightarrow>
   new_min_of a y =
     (if fst (py_min (value_of a) (times_array 0.8 y)) = 0 then Inr (True, a)
      else Inr (False, Row (snd (py_min (value_of a) (times_array 0.8 y)))))"
  by (cases y) (simp_all add: new_min_of_def case_prod_beta)

lemma new_min_of_nonempty:
  assumes "y \<noteq> []"
  shows "new_min_of a y =
           (if candidate_alpha (value_of a) y < value_of a
            then Inr (False, Row (candidate_alpha (value_of a) y))
            else Inr (True, a))"
proof -
  let ?rows = "times_array 0.8 y"
  have ne: "set ?rows \<noteq> {}" using assms by (simp add: times_array_def)
  have "snd (py_min (value_of a) ?rows) = min (value_of a) (Min (set ?rows))"
    unfolding py_min_value using ne by (intro Min_insert) auto
  then have v: "snd (py_min (value_of a) ?rows) = candidate_alpha (value_of a) y"
    by (simp only: candidate_alpha_def Min_times_array [OF assms])
  have "fst (py_min (value_of a) ?rows) = 0 \<longleftrightarrow> (\<forall>u \<in> set ?rows. value_of a \<le> u)"
    by (rule py_min_first)
  also have "\<dots> \<longleftrightarrow> value_of a \<le> Min (set ?rows)"
    using ne by (subst Min_ge_iff) auto
  also have "\<dots> \<longleftrightarrow> \<not> candidate_alpha (value_of a) y < value_of a"
    unfolding candidate_alpha_def Min_times_array [OF assms] by (auto simp: min_def)
  finally have i: "fst (py_min (value_of a) ?rows) = 0
      \<longleftrightarrow> \<not> candidate_alpha (value_of a) y < value_of a" .
  show ?thesis unfolding new_min_of_rows [OF assms] v i by simp
qed

lemma new_min_of_empty:
  "new_min_of a [] = (case a of Row r \<Rightarrow> Inr (False, Scalar r) | Scalar r \<Rightarrow> Inl TypeError_min)"
  by (simp add: new_min_of_def)

lemma validate_Inr:
  "validate_and_transform_for_gpy_update x y = Inr (x', y') \<longleftrightarrow>
   x' = atleast_2d x \<and> y' = reshape_column y \<and> length x' = length y'"
  by (auto simp: validate_and_transform_for_gpy_update_def Let_def)

lemma validate_Inl:
  "validate_and_transform_for_gpy_update x y = Inl e \<longleftrightarrow>
   length (atleast_2d x) \<noteq> length (reshape_column y) \<and>
   e = ValueError_points (length (atleast_2d x)) (length (reshape_column y))"
  by (auto simp: validate_and_transform_for_gpy_update_def Let_def)

lemma append_warped_eq:
  "length x = length y \<Longrightarrow>
   append_warped s x y = Inr (s\<lparr>gp_X := gp_X s @ x, gp_Y := gp_Y s @ warp s y\<rparr>)"
  by (simp add: append_warped_def gp_update_def validate_and_transform_for_gpy_update_def warp_def)

lemma warp_alpha_only: "alpha s = alpha t \<Longrightarrow> warp s = warp t"
  by (auto simp: warp_def fun_eq_iff)

section \<open>What \<^verbatim>\<open>update\<close> and \<^verbatim>\<open>fantasise\<close> return\<close>

lemma warp_fun: "warp s = map (\<lambda>v. sqrt (2 * (v - value_of (alpha s))))"
  by (rule ext) (simp add: warp_def)

lemma update_accepted:
  assumes "validate_and_transform_for_gpy_update x y = Inr (x', y')"
  shows "update s x y =
     (case new_min_of (alpha s) y' of
        Inl e \<Rightarrow> Inl (e, s\<lparr>all_X := all_X s @ [x'], unwarped_Y := unwarped_Y s @ [y']\<rparr>)
      | Inr (is_alpha, a) \<Rightarrow>
          Inr (if is_alpha
               then s\<lparr>all_X := all_X s @ [x'], unwarped_Y := unwarped_Y s @ [y'],
                      gp_X := gp_X s @ x', gp_Y := gp_Y s @ warp s y'\<rparr>
               else s\<lparr>all_X := all_X s @ [x'], unwarped_Y := unwarped_Y s @ [y'],
                      alpha := a, true_alpha := a,
                      gp_X := concat (all_X s @ [x']),
                      gp_Y := concat (map (warp (s\<lparr>alpha := a\<rparr>)) (unwarped_Y s @ [y']))\<rparr>))"
proof -
  have "length x' = length y'" using assms by (auto simp: validate_Inr)
  then show ?thesis
    by (auto simp: update_def assms Let_def append_warped_eq
          update_alpha_and_reprocess_data_def np_concatenate_def warp_fun
        split: sum.splits prod.splits)
qed

lemma fantasise_accepted:
  assumes "validate_and_transform_for_gpy_update x y = Inr (x', y')"
  shows "fantasise s x y =
     (case new_min_of (alpha s) y' of
        Inl e \<Rightarrow> Inl (e, s\<lparr>fantasy_X := fantasy_X s @ [x'], fantasy_Y := fantasy_Y s @ [y']\<rparr>)
      | Inr (is_alpha, a) \<Rightarrow>
          Inr (if is_alpha
               then s\<lparr>fantasy_X := fantasy_X s @ [x'], fantasy_Y := fantasy_Y s @ [y'],
                      gp_X := gp_X s @ x', gp_Y := gp_Y s @ warp s y'\<rparr>
               else s\<lparr>fantasy_X := fantasy_X s @ [x'], fantasy_Y := fantasy_Y s @ [y'],
                      alpha := a,
                      gp_X := concat (all_X s @ fantasy_X s @ [x']),
                      gp_Y := concat (map (warp (s\<lparr>alpha := a\<rparr>)) (unwarped_Y s)
                                       @ map (warp (s\<lparr>alpha := a\<rparr>)) (fantasy_Y s @ [y']))\<rparr>))"
proof -
  have "length x' = length y'" using assms by (auto simp: validate_Inr)
  then show ?thesis
    by (auto simp: fantasise_def assms Let_def append_warped_eq
          fantasise_alpha_and_reprocess_data_def np_concatenate_def warp_fun
        split: sum.splits prod.splits)
qed

lemma update_rejected:
  "validate_and_transform_for_gpy_update x y = Inl e \<Longrightarrow> update s x y = Inl (e, s)"
  by (simp add: update_def)

lemma fantasise_rejected:
  "validate_and_transform_for_gpy_update x y = Inl e \<Longrightarrow> fantasise s x y = Inl (e, s)"
  by (simp add: fantasise_def)

lemma new_min_of_error: "new_min_of a y = Inl e \<Longrightarrow> e = TypeError_min \<and> y = []"
  by (auto simp: new_min_of_def split: list.splits pynum.splits prod.splits if_splits)

lemma remove_fantasies_true_alpha:
  "true_alpha (state_after (remove_fantasies s)) = true_alpha s"
  by (simp add: remove_fantasies_def Let_def split: sum.splits)

lemma wf_yin_size: "wf_yin y \<Longrightarrow> length (reshape_column y) = y_size y"
  by (cases y) simp_all

section \<open>Bounds on the offset\<close>

lemma alpha_bounded_by_Nil [simp]: "alpha_bounded_by a []"
  by (simp add: alpha_bounded_by_def)

lemma alpha_bounded_by_empty_batch [simp]: "alpha_bounded_by a [[]]"
  by (simp add: alpha_bounded_by_def)

lemma alpha_bounded_by_append [simp]:
  "alpha_bounded_by a (bs @ cs) \<longleftrightarrow> alpha_bounded_by a bs \<and> alpha_bounded_by a cs"
  by (auto simp: alpha_bounded_by_def)

lemma alpha_bounded_by_mono: "a \<le> b \<Longrightarrow> alpha_bounded_by b bs \<Longrightarrow> alpha_bounded_by a bs"
  by (fastforce simp: alpha_bounded_by_def)

lemma candidate_alpha_le: "candidate_alpha c y \<le> c"
  by (simp add: candidate_alpha_def)

lemma candidate_alpha_bound: "alpha_bounded_by (candidate_alpha c y) [y]"
  unfolding alpha_bounded_by_def
proof (intro ballI)
  fix ys v assume "ys \<in> set [y]" and "v \<in> set ys"
  then have "Min (set y) \<le> v" by simp
  then have "0.8 * Min (set y) \<le> 0.8 * v" by simp
  then show "candidate_alpha c y \<le> 0.8 * v"
    unfolding candidate_alpha_def by (rule min.coboundedI2)
qed

lemma candidate_alpha_keep:
  assumes "\<not> candidate_alpha c y < c"
  shows "alpha_bounded_by c [y]"
proof -
  have "c \<le> candidate_alpha c y" using assms by simp
  then show ?thesis using candidate_alpha_bound by (rule alpha_bounded_by_mono)
qed

text \<open>The numeric effect of one call on the offsets and the histories.\<close>

lemma update_effect:
  assumes "validate_and_transform_for_gpy_update x y = Inr (x', y')"
    and r_def: "r = state_after (update s x y)"
  shows "unwarped_Y r = unwarped_Y s @ [y']" and "fantasy_Y r = fantasy_Y s"
    and "(value_of (alpha r) = value_of (alpha s) \<and> value_of (true_alpha r) = value_of (true_alpha s)
          \<and> alpha_bounded_by (value_of (alpha s)) [y'])
       \<or> (value_of (alpha r) \<le> value_of (alpha s) \<and> value_of (true_alpha r) = value_of (alpha r)
          \<and> alpha_bounded_by (value_of (alpha r)) [y'])"
proof -
  show "unwarped_Y r = unwarped_Y s @ [y']" and "fantasy_Y r = fantasy_Y s"
    unfolding r_def by (simp_all add: update_accepted [OF assms(1)] split: sum.splits prod.splits)
  show "(value_of (alpha r) = value_of (alpha s) \<and> value_of (true_alpha r) = value_of (true_alpha s)
          \<and> alpha_bounded_by (value_of (alpha s)) [y'])
       \<or> (value_of (alpha r) \<le> value_of (alpha s) \<and> value_of (true_alpha r) = value_of (alpha r)
          \<and> alpha_bounded_by (value_of (alpha r)) [y'])"
  proof (cases "y' = []")
    case True
    then show ?thesis unfolding r_def
      by (cases "alpha s") (simp_all add: update_accepted [OF assms(1)] new_min_of_empty)
  next
    case False
    show ?thesis
    proof (cases "candidate_alpha (value_of (alpha s)) y' < value_of (alpha s)")
      case True
      then show ?thesis unfolding r_def
        by (simp add: update_accepted [OF assms(1)] new_min_of_nonempty [OF False]
              candidate_alpha_bound)
    next
      case keep: False
      then show ?thesis unfolding r_def
        by (simp add: update_accepted [OF assms(1)] new_min_of_nonempty [OF False]
              candidate_alpha_keep)
    qed
  qed
qed

lemma fantasise_effect:
  assumes "validate_and_transform_for_gpy_update x y = Inr (x', y')"
    and r_def: "r = state_after (fantasise s x y)"
  shows "unwarped_Y r = unwarped_Y s" and "fantasy_Y r = fantasy_Y s @ [y']"
    and "true_alpha r = true_alpha s"
    and "value_of (alpha r) \<le> value_of (alpha s) \<and> alpha_bounded_by (value_of (alpha r)) [y']"
proof -
  show "unwarped_Y r = unwarped_Y s" and "fantasy_Y r = fantasy_Y s @ [y']"
    and "true_alpha r = true_alpha s"
    unfolding r_def by (simp_all add: fantasise_accepted [OF assms(1)] split: sum.splits prod.splits)
  show "value_of (alpha r) \<le> value_of (alpha s) \<and> alpha_bounded_by (value_of (alpha r)) [y']"
  proof (cases "y' = []")
    case True
    then show ?thesis unfolding r_def
      by (cases "alpha s") (simp_all add: fantasise_accepted [OF assms(1)] new_min_of_empty)
  next
    case False
    show ?thesis
    proof (cases "candidate_alpha (value_of (alpha s)) y' < value_of (alpha s)")
      case True
      then show ?thesis unfolding r_def
        by (simp add: fantasise_accepted [OF assms(1)] new_min_of_nonempty [OF False]
              candidate_alpha_bound)
    next
      case keep: False
      then show ?thesis unfolding r_def
        by (simp add: fantasise_accepted [OF assms(1)] new_min_of_nonempty [OF False]
              candidate_alpha_keep)
    qed
  qed
qed

lemma remove_fantasies_effect:
  assumes r_def: "r = state_after (remove_fantasies s)"
  shows "unwarped_Y r = unwarped_Y s" and "true_alpha r = true_alpha s"
    and "alpha r = true_alpha s"
    and "unwarped_Y s \<noteq> [] \<Longrightarrow> all_X s \<noteq> [] \<Longrightarrow> fantasy_Y r = []"
  unfolding r_def
  by (simp_all add: remove_fantasies_def Let_def np_concatenate_def split: sum.splits)

lemma sqrt_four_fifths_neq_2: "sqrt (4 / 5) \<noteq> 2"
proof -
  have "sqrt (4 / 5) < 1" by (simp add: real_sqrt_lt_1_iff)
  then show ?thesis by linarith
qed

section \<open>Invariants of the offsets\<close>

lemma update_all_X:
  "validate_and_transform_for_gpy_update x y = Inr (x', y') \<Longrightarrow>
   all_X (state_after (update s x y)) = all_X s @ [x']"
  by (simp add: update_accepted split: sum.splits prod.splits)

lemma fantasise_all_X:
  "all_X (state_after (fantasise s x y)) = all_X s"
  by (cases "validate_and_transform_for_gpy_update x y")
     (auto simp: fantasise_rejected fantasise_accepted split: sum.splits prod.splits)

lemma remove_fantasies_all_X: "all_X (state_after (remove_fantasies s)) = all_X s"
  by (simp add: remove_fantasies_def Let_def split: sum.splits)

lemma step_Update_rejected:
  "validate_and_transform_for_gpy_update x y = Inl e \<Longrightarrow> step s (Update x y) = s"
  by (simp add: update_rejected)

lemma step_Fantasise_rejected:
  "validate_and_transform_for_gpy_update x y = Inl e \<Longrightarrow> step s (Fantasise x y) = s"
  by (simp add: fantasise_rejected)

lemma offsets_inv_step:
  assumes "offsets_inv s"
  shows "offsets_inv (step s c)"
proof (cases c)
  case (Update x y)
  show ?thesis
  proof (cases "validate_and_transform_for_gpy_update x y")
    case (Inl e)
    then show ?thesis using assms Update by (simp add: update_rejected)
  next
    case (Inr xy)
    then obtain x' y' where v: "validate_and_transform_for_gpy_update x y = Inr (x', y')"
      by (cases xy) simp
    let ?r = "state_after (update s x y)"
    note e = update_effect [OF v refl, of s] update_all_X [OF v, of s]
    from e(3) have "value_of (alpha ?r) \<le> value_of (true_alpha ?r)
        \<and> value_of (alpha ?r) \<le> value_of (alpha s)"
      using assms by (auto simp: offsets_inv_def)
    then show ?thesis using assms e(1,2,4) Update
      by (auto simp: offsets_inv_def intro: alpha_bounded_by_mono)
  qed
next
  case (Fantasise x y)
  show ?thesis
  proof (cases "validate_and_transform_for_gpy_update x y")
    case (Inl e)
    then show ?thesis using assms Fantasise by (simp add: fantasise_rejected)
  next
    case (Inr xy)
    then obtain x' y' where v: "validate_and_transform_for_gpy_update x y = Inr (x', y')"
      by (cases xy) simp
    note e = fantasise_effect [OF v refl, of s] fantasise_all_X [of s x y]
    show ?thesis using assms e Fantasise
      by (auto simp: offsets_inv_def intro: alpha_bounded_by_mono)
  qed
next
  case RemoveFantasies
  note e = remove_fantasies_effect [OF refl, of s] remove_fantasies_all_X [of s]
  show ?thesis using assms e RemoveFantasies by (auto simp: offsets_inv_def)
qed

lemma offsets_inv_run: "offsets_inv s \<Longrightarrow> offsets_inv (run s cs)"
  by (induction cs arbitrary: s) (simp_all add: offsets_inv_step del: step.simps)

lemma real_bound_inv_step:
  assumes "offsets_inv s" and "real_bound_inv s"
    and "\<And>x y. c = Update x y \<Longrightarrow> fantasy_Y s = []"
  shows "real_bound_inv (step s c)"
proof (cases c)
  case (Update x y)
  then have nf: "fantasy_Y s = []" by (rule assms(3))
  then have eq: "value_of (alpha s) = value_of (true_alpha s)"
    using assms(2) by (simp add: real_bound_inv_def)
  show ?thesis
  proof (cases "validate_and_transform_for_gpy_update x y")
    case (Inl e)
    then show ?thesis using assms Update by (simp add: update_rejected)
  next
    case (Inr xy)
    then obtain x' y' where v: "validate_and_transform_for_gpy_update x y = Inr (x', y')"
      by (cases xy) simp
    let ?r = "state_after (update s x y)"
    note e = update_effect [OF v refl, of s]
    have old: "alpha_bounded_by (value_of (true_alpha s)) (unwarped_Y s)"
      using assms(2) by (simp add: real_bound_inv_def)
    from e(3) have "value_of (true_alpha ?r) = value_of (alpha ?r)
        \<and> value_of (true_alpha ?r) \<le> value_of (true_alpha s)
        \<and> alpha_bounded_by (value_of (true_alpha ?r)) [y']"
      using eq by auto
    then show ?thesis using old e(1,2) nf Update
      by (auto simp: real_bound_inv_def intro: alpha_bounded_by_mono)
  qed
next
  case (Fantasise x y)
  show ?thesis
  proof (cases "validate_and_transform_for_gpy_update x y")
    case (Inl e)
    then show ?thesis using assms Fantasise by (simp add: fantasise_rejected)
  next
    case (Inr xy)
    then obtain x' y' where v: "validate_and_transform_for_gpy_update x y = Inr (x', y')"
      by (cases xy) simp
    note e = fantasise_effect [OF v refl, of s]
    show ?thesis using assms(2) e Fantasise by (simp add: real_bound_inv_def)
  qed
next
  case RemoveFantasies
  note e = remove_fantasies_effect [OF refl, of s]
  show ?thesis using assms(2) e(1,2,3) RemoveFantasies by (simp add: real_bound_inv_def)
qed

lemma real_bound_inv_run:
  "offsets_inv s \<Longrightarrow> real_bound_inv s \<Longrightarrow> no_update_over_fantasies s cs \<Longrightarrow>
   real_bound_inv (run s cs)"
proof (induction cs arbitrary: s)
  case Nil
  then show ?case by simp
next
  case (Cons c cs)
  have g: "no_update_over_fantasies (step s c) cs"
    and u: "\<And>x y. c = Update x y \<Longrightarrow> fantasy_Y s = []"
    using Cons.prems(3) by (cases c; simp)+
  have "real_bound_inv (step s c)"
    using Cons.prems(1,2) u by (rule real_bound_inv_step)
  moreover have "offsets_inv (step s c)" using Cons.prems(1) by (rule offsets_inv_step)
  ultimately show ?case using Cons.IH g by simp
qed

lemma unwarped_Y_run: "unwarped_Y (run s cs) = unwarped_Y s @ accepted_update_batches cs"
proof (induction cs arbitrary: s)
  case Nil
  then show ?case by simp
next
  case (Cons c cs)
  show ?case
  proof (cases c)
    case (Update x y)
    show ?thesis
    proof (cases "validate_and_transform_for_gpy_update x y")
      case (Inl e)
      then show ?thesis using Cons Update by (simp add: update_rejected)
    next
      case (Inr xy)
      then obtain x' y' where v: "validate_and_transform_for_gpy_update x y = Inr (x', y')"
        by (cases xy) simp
      show ?thesis using Cons Update v update_effect(1) [OF v refl, of s] by simp
    qed
  next
    case (Fantasise x y)
    have "unwarped_Y (state_after (fantasise s x y)) = unwarped_Y s"
    proof (cases "validate_and_transform_for_gpy_update x y")
      case (Inl e)
      then show ?thesis by (simp add: fantasise_rejected)
    next
      case (Inr xy)
      then obtain x' y' where v: "validate_and_transform_for_gpy_update x y = Inr (x', y')"
        by (cases xy) simp
      show ?thesis by (rule fantasise_effect(1) [OF v refl])
    qed
    then show ?thesis using Cons Fantasise by simp
  next
    case RemoveFantasies
    then show ?thesis using Cons remove_fantasies_effect(1) [OF refl, of s] by simp
  qed
qed

lemma alpha_bounded_by_Min:
  "alpha_bounded_by (0.8 * Min (insert u (set us))) [u # us]"
  unfolding alpha_bounded_by_def
proof (intro ballI)
  fix ys v assume "ys \<in> set [u # us]" and "v \<in> set ys"
  then have "Min (insert u (set us)) \<le> v" by auto
  then show "0.8 * Min (insert u (set us)) \<le> 0.8 * v" by simp
qed

lemma init_state:
  assumes "init X Y = Inr s0"
  shows "unwarped_Y s0 = [map (\<lambda>v. v\<^sup>2 / 2) Y]" and "all_X s0 = [X]"
    and "fantasy_Y s0 = []" and "true_alpha s0 = alpha s0"
    and "alpha_bounded_by (value_of (alpha s0)) (unwarped_Y s0)"
proof -
  obtain u us where h: "map (\<lambda>v. v\<^sup>2 / 2) Y = u # us"
    using assms by (cases "map (\<lambda>v. v\<^sup>2 / 2) Y") (simp_all add: init_def)
  have a: "value_of (alpha s0) = 0.8 * Min (insert u (set us))"
    using assms h by (cases us) (auto simp: init_def py_min_value)
  show "unwarped_Y s0 = [map (\<lambda>v. v\<^sup>2 / 2) Y]" and "all_X s0 = [X]"
    and "fantasy_Y s0 = []" and "true_alpha s0 = alpha s0"
    using assms h by (cases us; auto simp: init_def)+
  then show "alpha_bounded_by (value_of (alpha s0)) (unwarped_Y s0)"
    unfolding a h using alpha_bounded_by_Min [of u us] by simp
qed

lemma init_invariants:
  assumes "init X Y = Inr s0"
  shows "offsets_inv s0" and "real_bound_inv s0"
  using init_state [OF assms] by (simp_all add: offsets_inv_def real_bound_inv_def)

section \<open>Calls with one point\<close>

lemma init_one_point:
  "init [3::nat] [2]
     = Inr \<lparr>gp_X = [3], gp_Y = [2], alpha = Scalar 1.6, true_alpha = Scalar 1.6,
            unwarped_Y = [[2]], all_X = [[3]], fantasy_X = [], fantasy_Y = []\<rparr>"
  by (simp add: init_def Let_def)

lemma validate_one_point:
  "validate_and_transform_for_gpy_update (X2D [p]) (YArray shape [v]) = Inr ([p], [v])"
  by (simp add: validate_and_transform_for_gpy_update_def)

lemma candidate_alpha_single: "candidate_alpha c [v] = min c (0.8 * v)"
  by (simp add: candidate_alpha_def)

lemma update_one_point:
  "update s (X2D [p]) (YArray shape [v]) =
     Inr (if 0.8 * v < value_of (alpha s)
          then s\<lparr>all_X := all_X s @ [[p]], unwarped_Y := unwarped_Y s @ [[v]],
                 alpha := Row (0.8 * v), true_alpha := Row (0.8 * v),
                 gp_X := concat (all_X s @ [[p]]),
                 gp_Y := concat (map (map (\<lambda>u. sqrt (2 * (u - 0.8 * v)))) (unwarped_Y s @ [[v]]))\<rparr>
          else s\<lparr>all_X := all_X s @ [[p]], unwarped_Y := unwarped_Y s @ [[v]],
                 gp_X := gp_X s @ [p],
                 gp_Y := gp_Y s @ [sqrt (2 * (v - value_of (alpha s)))]\<rparr>)"
  by (simp add: update_accepted [OF validate_one_point] new_min_of_nonempty
        candidate_alpha_single warp_fun min_def)

lemma fantasise_one_point:
  "fantasise s (X2D [p]) (YArray shape [v]) =
     Inr (if 0.8 * v < value_of (alpha s)
          then s\<lparr>fantasy_X := fantasy_X s @ [[p]], fantasy_Y := fantasy_Y s @ [[v]],
                 alpha := Row (0.8 * v),
                 gp_X := concat (all_X s @ fantasy_X s @ [[p]]),
                 gp_Y := concat (map (map (\<lambda>u. sqrt (2 * (u - 0.8 * v)))) (unwarped_Y s)
                                  @ map (map (\<lambda>u. sqrt (2 * (u - 0.8 * v)))) (fantasy_Y s @ [[v]]))\<rparr>
          else s\<lparr>fantasy_X := fantasy_X s @ [[p]], fantasy_Y := fantasy_Y s @ [[v]],
                 gp_X := gp_X s @ [p],
                 gp_Y := gp_Y s @ [sqrt (2 * (v - value_of (alpha s)))]\<rparr>)"
  by (simp add: fantasise_accepted [OF validate_one_point] new_min_of_nonempty
        candidate_alpha_single warp_fun min_def)

text \<open>
  A call of \<^verbatim>\<open>update\<close> over fantasy batches can leave \<^verbatim>\<open>_true_alpha\<close> above 0.8 times a
  real value: from the offset 1.6 a fantasy value 1 lowers \<^verbatim>\<open>_alpha\<close> to 0.8, the real
  value 1.5 then takes the incremental branch (1.2 is not below 0.8), and
  \<^verbatim>\<open>remove_fantasies\<close> restores the offset 1.6, above 1.2.
\<close>

lemma update_over_fantasies_then_remove:
  "value_of (alpha (run
        \<lparr>gp_X = [3::nat], gp_Y = [2], alpha = Scalar 1.6, true_alpha = Scalar 1.6,
          unwarped_Y = [[2]], all_X = [[3]], fantasy_X = [], fantasy_Y = []\<rparr>
        [Fantasise (X2D [7]) (YArray [1] [1]), Update (X2D [8]) (YArray [1] [1.5]),
         RemoveFantasies])) = 1.6
   \<and> unwarped_Y (run
        \<lparr>gp_X = [3::nat], gp_Y = [2], alpha = Scalar 1.6, true_alpha = Scalar 1.6,
          unwarped_Y = [[2]], all_X = [[3]], fantasy_X = [], fantasy_Y = []\<rparr>
        [Fantasise (X2D [7]) (YArray [1] [1]), Update (X2D [8]) (YArray [1] [1.5]),
         RemoveFantasies]) = [[2], [1.5]]"
  by (simp add: update_one_point fantasise_one_point remove_fantasies_def Let_def
        np_concatenate_def)

lemma update_monotone:
  assumes "offsets_inv s"
  shows "value_of (alpha (step s (Update x y))) \<le> value_of (alpha s)
     \<and> value_of (true_alpha (step s (Update x y))) \<le> value_of (true_alpha s)"
proof (cases "validate_and_transform_for_gpy_update x y")
  case (Inl e)
  then show ?thesis by (simp add: update_rejected)
next
  case (Inr xy)
  then obtain x' y' where v: "validate_and_transform_for_gpy_update x y = Inr (x', y')"
    by (cases xy) simp
  show ?thesis using update_effect(3) [OF v refl, of s] assms
    by (auto simp: offsets_inv_def)
qed

lemma updates_monotone:
  "offsets_inv s \<Longrightarrow>
   value_of (alpha (run s (map (\<lambda>(x, y). Update x y) batches))) \<le> value_of (alpha s)
   \<and> value_of (true_alpha (run s (map (\<lambda>(x, y). Update x y) batches))) \<le> value_of (true_alpha s)"
proof (induction batches arbitrary: s)
  case Nil
  then show ?case by simp
next
  case (Cons b batches)
  obtain x y where b: "b = (x, y)" by (cases b)
  have "offsets_inv (step s (Update x y))" using Cons.prems by (rule offsets_inv_step)
  from Cons.IH [OF this] update_monotone [OF Cons.prems, of x y] show ?case
    unfolding b by (simp del: step.simps)
qed

section \<open>Where the model agrees with the histories\<close>

lemma warp_consistent_remove_fantasies:
  assumes "unwarped_Y s \<noteq> []" and "all_X s \<noteq> []"
  shows "warp_consistent (state_after (remove_fantasies s))"
proof -
  let ?s1 = "s\<lparr>alpha := true_alpha s\<rparr>"
  have "remove_fantasies s
      = Inr (?s1\<lparr>gp_X := concat (all_X s), gp_Y := concat (map (warp ?s1) (unwarped_Y s)),
                  fantasy_X := [], fantasy_Y := []\<rparr>)"
    using assms by (simp add: remove_fantasies_def Let_def np_concatenate_def)
  then show ?thesis
    by (simp add: warp_consistent_def warp_fun map_concat)
qed

lemma validated_empty:
  "validate_and_transform_for_gpy_update x y = Inr (x', []) \<Longrightarrow> x' = []"
  by (auto simp: validate_Inr)

lemma warp_consistent_fantasise:
  assumes "warp_consistent s"
  shows "warp_consistent (state_after (fantasise s x y))"
proof (cases "validate_and_transform_for_gpy_update x y")
  case (Inl e)
  then show ?thesis using assms by (simp add: fantasise_rejected)
next
  case (Inr xy)
  then obtain x' y' where v: "validate_and_transform_for_gpy_update x y = Inr (x', y')"
    by (cases xy) simp
  show ?thesis
  proof (cases "new_min_of (alpha s) y'")
    case (Inl e)
    then have "y' = []" by (auto dest: new_min_of_error)
    then have "x' = []" using v by (auto dest: validated_empty)
    then show ?thesis using assms Inl \<open>y' = []\<close>
      by (simp add: fantasise_accepted [OF v] warp_consistent_def warp_fun)
  next
    case (Inr r)
    obtain is_alpha a where r: "r = (is_alpha, a)" by (cases r)
    show ?thesis
    proof (cases is_alpha)
      case True
      then show ?thesis using assms Inr r
        by (simp add: fantasise_accepted [OF v] warp_consistent_def warp_fun)
    next
      case False
      show ?thesis using Inr r False
        by (simp add: fantasise_accepted [OF v] warp_consistent_def warp_fun map_concat)
    qed
  qed
qed

lemma warp_consistent_update:
  assumes "warp_consistent s" and "fantasy_X s = []" and "fantasy_Y s = []"
  shows "warp_consistent (state_after (update s x y))"
proof (cases "validate_and_transform_for_gpy_update x y")
  case (Inl e)
  then show ?thesis using assms by (simp add: update_rejected)
next
  case (Inr xy)
  then obtain x' y' where v: "validate_and_transform_for_gpy_update x y = Inr (x', y')"
    by (cases xy) simp
  show ?thesis
  proof (cases "new_min_of (alpha s) y'")
    case (Inl e)
    then have "y' = []" by (auto dest: new_min_of_error)
    then have "x' = []" using v by (auto dest: validated_empty)
    then show ?thesis using assms Inl \<open>y' = []\<close>
      by (simp add: update_accepted [OF v] warp_consistent_def warp_fun)
  next
    case (Inr r)
    obtain is_alpha a where r: "r = (is_alpha, a)" by (cases r)
    show ?thesis
    proof (cases is_alpha)
      case True
      then show ?thesis using assms Inr r
        by (simp add: update_accepted [OF v] warp_consistent_def warp_fun)
    next
      case False
      show ?thesis using Inr r False assms(2,3)
        by (simp add: update_accepted [OF v] warp_consistent_def warp_fun map_concat)
    qed
  qed
qed

lemma init_not_warp_consistent:
  "\<not> warp_consistent
        \<lparr>gp_X = [3::nat], gp_Y = [2], alpha = Scalar 1.6, true_alpha = Scalar 1.6,
          unwarped_Y = [[2]], all_X = [[3]], fantasy_X = [], fantasy_Y = []\<rparr>"
  by (simp add: warp_consistent_def warp_fun sqrt_four_fifths_neq_2)

section \<open>The hessians of the engine\<close>

lemma mean_hessian_spec:
  "mean_hessian e x i k l
     = spec_mean_hessian (length (gpy_Y e)) (kernel_hessian e x) (woodbury_inv e) (Y_D e) i k l"
  by (simp add: mean_hessian_def einsum_ijkl_jm_m_ikl_def spec_mean_hessian_def
        spec_Kinv_Yd_def sum_distrib_left mult.assoc)

lemma half_spec:
  "data_dependent_hessian_half e x i j k
     = spec_Q (length (gpy_Y e)) (kernel_hessian e x) (kernel_jacobian e x) (woodbury_inv e)
         (kern_K e x) i j k"
  by (simp add: data_dependent_hessian_half_def einsum_iljk_lm_im_ijk_def
        einsum_ilj_lm_imk_ijk_def spec_Q_def sum.cartesian_product)

lemma variance_hessian_spec:
  "variance_hessian e x i j k
     = spec_variance_hessian (length (gpy_Y e)) (diagonal_hessian e x) (kernel_hessian e x)
         (kernel_jacobian e x) (woodbury_inv e) (kern_K e x) i j k"
  by (simp add: variance_hessian_def data_dependent_hessian_def swapaxes_last_def
        spec_variance_hessian_def half_spec)

lemma data_dependent_hessian_symmetric:
  "data_dependent_hessian e x i j k = data_dependent_hessian e x i k j"
  by (simp add: data_dependent_hessian_def swapaxes_last_def)

lemma variance_hessian_symmetric:
  "diagonal_hessian e x i j k = diagonal_hessian e x i k j \<Longrightarrow>
   variance_hessian e x i j k = variance_hessian e x i k j"
  by (simp add: variance_hessian_def data_dependent_hessian_symmetric [of e x i j k])

text \<open>
  The source subtracts the symmetrised part from the diagonal hessian as the collaborator
  returns it: what the variance hessian lacks of symmetry is what the diagonal hessian
  lacks.
\<close>

lemma variance_hessian_swap_difference:
  "variance_hessian e x i j k - variance_hessian e x i k j
     = diagonal_hessian e x i j k - diagonal_hessian e x i k j"
  by (simp add: variance_hessian_def data_dependent_hessian_symmetric [of e x i j k])

lemma mean_hessian_symmetric:
  "(\<And>n. kernel_hessian e x i n j k = kernel_hessian e x i n k j) \<Longrightarrow>
   mean_hessian e x i j k = mean_hessian e x i k j"
  by (simp add: mean_hessian_def einsum_ijkl_jm_m_ikl_def)

lemma hessian_of_f_squared_times_g_symmetric:
  "fh i j k = fh i k j \<Longrightarrow> gh i j k = gh i k j \<Longrightarrow>
   hessian_of_f_squared_times_g f fj fh g gj gh i j k
     = hessian_of_f_squared_times_g f fj fh g gj gh i k j"
  by (simp add: hessian_of_f_squared_times_g_def algebra_simps)

lemma spec_Q_nested:
  "spec_Q N H J Kinv Kstar i j k =
     (\<Sum>l<N. \<Sum>m<N. H i l j k * Kinv l m * Kstar i m)
     + (\<Sum>l<N. \<Sum>m<N. J i l j * Kinv l m * J i m k)"
  by (simp add: spec_Q_def sum.cartesian_product)

section \<open>Claims\<close>

text \<open>
  C9. A call to \<^verbatim>\<open>fantasise\<close> never changes \<^verbatim>\<open>_true_alpha\<close>, whichever branch it takes
  and also when it raises; \<^verbatim>\<open>remove_fantasies\<close> does not assign it either. Only
  \<^verbatim>\<open>__init__\<close> and the reprocessing branch of \<^verbatim>\<open>update\<close> assign \<^verbatim>\<open>_true_alpha\<close>.
\<close>

theorem fantasise_keeps_true_alpha:
  "true_alpha (state_after (fantasise s x y)) = true_alpha s
   \<and> true_alpha (state_after (remove_fantasies s)) = true_alpha s"
proof
  show "true_alpha (state_after (fantasise s x y)) = true_alpha s"
  proof (cases "validate_and_transform_for_gpy_update x y")
    case (Inl e)
    then show ?thesis by (simp add: fantasise_rejected)
  next
    case (Inr xy)
    then obtain x' y' where "validate_and_transform_for_gpy_update x y = Inr (x', y')"
      by (cases xy) simp
    then show ?thesis
      by (simp add: fantasise_accepted split: sum.splits prod.splits)
  qed
  show "true_alpha (state_after (remove_fantasies s)) = true_alpha s"
    by (rule remove_fantasies_true_alpha)
qed

text \<open>
  C2. For every call \<^verbatim>\<open>update(x, y)\<close> that passes the point-count check, with
  \<open>candidate = min(current alpha, 0.8 * min(y))\<close>, which has a value when \<^verbatim>\<open>y\<close> has at least
  one entry: if the candidate is strictly smaller than the current offset, \<^verbatim>\<open>_alpha\<close> and
  \<^verbatim>\<open>_true_alpha\<close> become the candidate and the model's data are replaced by all real
  batches, every one warped with the new offset; otherwise only the new batch is warped,
  with the existing offset, and appended to the model's data. The identity test
  \<^verbatim>\<open>new_min is not self._alpha\<close> decides exactly as the numeric comparison.
\<close>

theorem update_reprocesses_iff_candidate_smaller:
  assumes "validate_and_transform_for_gpy_update x y = Inr (x', y')" and "y' \<noteq> []"
  shows "update s x y =
     (let current = value_of (alpha s); candidate = candidate_alpha current y'
      in if candidate < current
         then Inr (s\<lparr>all_X := all_X s @ [x'], unwarped_Y := unwarped_Y s @ [y'],
                     alpha := Row candidate, true_alpha := Row candidate,
                     gp_X := concat (all_X s @ [x']),
                     gp_Y := concat (map (map (\<lambda>v. sqrt (2 * (v - candidate))))
                                         (unwarped_Y s @ [y']))\<rparr>)
         else Inr (s\<lparr>all_X := all_X s @ [x'], unwarped_Y := unwarped_Y s @ [y'],
                     gp_X := gp_X s @ x',
                     gp_Y := gp_Y s @ map (\<lambda>v. sqrt (2 * (v - current))) y'\<rparr>))"
  by (simp add: update_accepted [OF assms(1)] new_min_of_nonempty [OF assms(2)] Let_def warp_fun)

text \<open>
  C2, witness: from the offset 1.6, a batch with the value 1 lowers the offset to 0.8 and
  re-warps everything, a batch with the value 2 is appended with the offset unchanged.
\<close>

theorem update_reprocesses_iff_candidate_smaller_witness:
  "validate_and_transform_for_gpy_update (X2D [7::nat]) (YArray [1] [1]) = Inr ([7], [1])
   \<and> [1::real] \<noteq> []
   \<and> update \<lparr>gp_X = [3::nat], gp_Y = [2], alpha = Scalar 1.6, true_alpha = Scalar 1.6,
              unwarped_Y = [[2]], all_X = [[3]], fantasy_X = [], fantasy_Y = []\<rparr>
        (X2D [7::nat]) (YArray [1] [1])
     = Inr \<lparr>gp_X = [3, 7], gp_Y = [sqrt 2.4, sqrt 0.4], alpha = Row 0.8, true_alpha = Row 0.8,
            unwarped_Y = [[2], [1]], all_X = [[3], [7]], fantasy_X = [], fantasy_Y = []\<rparr>
   \<and> update \<lparr>gp_X = [3::nat], gp_Y = [2], alpha = Scalar 1.6, true_alpha = Scalar 1.6,
              unwarped_Y = [[2]], all_X = [[3]], fantasy_X = [], fantasy_Y = []\<rparr>
        (X2D [7::nat]) (YArray [1] [2])
     = Inr \<lparr>gp_X = [3, 7], gp_Y = [2, sqrt 0.8], alpha = Scalar 1.6, true_alpha = Scalar 1.6,
            unwarped_Y = [[2], [2]], all_X = [[3], [7]], fantasy_X = [], fantasy_Y = []\<rparr>"
proof -
  let ?s = "\<lparr>gp_X = [3::nat], gp_Y = [2], alpha = Scalar 1.6, true_alpha = Scalar 1.6,
              unwarped_Y = [[2]], all_X = [[3]], fantasy_X = [], fantasy_Y = []\<rparr>"
  have v1: "validate_and_transform_for_gpy_update (X2D [7::nat]) (YArray [1] [1]) = Inr ([7], [1])"
    by (simp add: validate_and_transform_for_gpy_update_def)
  have v2: "validate_and_transform_for_gpy_update (X2D [7::nat]) (YArray [1] [2]) = Inr ([7], [2])"
    by (simp add: validate_and_transform_for_gpy_update_def)
  have n: "[1::real] \<noteq> []" "[2::real] \<noteq> []" by simp_all
  show ?thesis
    using update_reprocesses_iff_candidate_smaller [OF v1 n(1), of ?s]
          update_reprocesses_iff_candidate_smaller [OF v2 n(2), of ?s] v1
    by (simp add: candidate_alpha_def Let_def)
qed

text \<open>
  A call of \<^verbatim>\<open>update\<close> with no points, where \<open>0.8 * min(y)\<close> has no value. The model
  built from two training targets 2 and 3 holds the offset as an array of shape
  \<^verbatim>\<open>(1,)\<close>. The call passes the check (0 = 0); \<^verbatim>\<open>min(self._alpha)\<close> returns the entry of
  the offset, equal in value and another object, and all data are re-warped: the model's
  targets 2, 3, which \<^verbatim>\<open>__init__\<close> had left as they were, become \<open>sqrt 0.8\<close>,
  \<open>sqrt 5.8\<close>.
\<close>

lemma update_with_no_points:
  "init [3::nat, 4] [2, 3]
     = Inr \<lparr>gp_X = [3, 4], gp_Y = [2, 3], alpha = Row 1.6, true_alpha = Row 1.6,
            unwarped_Y = [[2, 4.5]], all_X = [[3, 4]], fantasy_X = [], fantasy_Y = []\<rparr>
   \<and> validate_and_transform_for_gpy_update (X2D ([]::nat list)) (YArray [0] []) = Inr ([], [])
   \<and> new_min_of (Row 1.6) [] = Inr (False, Scalar 1.6)
   \<and> update \<lparr>gp_X = [3::nat, 4], gp_Y = [2, 3], alpha = Row 1.6, true_alpha = Row 1.6,
              unwarped_Y = [[2, 4.5]], all_X = [[3, 4]], fantasy_X = [], fantasy_Y = []\<rparr>
        (X2D []) (YArray [0] [])
     = Inr \<lparr>gp_X = [3, 4], gp_Y = [sqrt 0.8, sqrt 5.8], alpha = Scalar 1.6,
            true_alpha = Scalar 1.6, unwarped_Y = [[2, 4.5], []], all_X = [[3, 4], []],
            fantasy_X = [], fantasy_Y = []\<rparr>
   \<and> update \<lparr>gp_X = [3::nat, 4], gp_Y = [2, 3], alpha = Row 1.6, true_alpha = Row 1.6,
              unwarped_Y = [[2, 4.5]], all_X = [[3, 4]], fantasy_X = [], fantasy_Y = []\<rparr>
        (X2D []) (YArray [0] [])
     \<noteq> Inr \<lparr>gp_X = [3, 4] @ [], gp_Y = [2, 3] @ [], alpha = Row 1.6,
            true_alpha = Row 1.6, unwarped_Y = [[2, 4.5], []], all_X = [[3, 4], []],
            fantasy_X = [], fantasy_Y = []\<rparr>"
proof -
  have v: "validate_and_transform_for_gpy_update (X2D ([]::nat list)) (YArray [0] []) = Inr ([], [])"
    by (simp add: validate_and_transform_for_gpy_update_def)
  have i: "init [3::nat, 4] [2, 3]
     = Inr \<lparr>gp_X = [3, 4], gp_Y = [2, 3], alpha = Row 1.6, true_alpha = Row 1.6,
            unwarped_Y = [[2, 4.5]], all_X = [[3, 4]], fantasy_X = [], fantasy_Y = []\<rparr>"
    by (simp add: init_def py_min_def)
  show ?thesis
    by (simp add: i v update_accepted [OF v] new_min_of_empty warp_fun sqrt_four_fifths_neq_2)
qed

text \<open>
  C8. When the point counts of \<^verbatim>\<open>x\<close> and \<^verbatim>\<open>y\<close> disagree, \<^verbatim>\<open>update\<close> and \<^verbatim>\<open>fantasise\<close>
  raise the point-count \<^verbatim>\<open>ValueError\<close> and the state at the raise is the state before the
  call: no history and no model data have changed. When the counts agree, neither raises
  that error.
\<close>

theorem point_count_mismatch_raises_before_any_mutation:
  "(length (atleast_2d x) \<noteq> length (reshape_column y) \<longrightarrow>
      update s x y
        = Inl (ValueError_points (length (atleast_2d x)) (length (reshape_column y)), s)
      \<and> fantasise s x y
        = Inl (ValueError_points (length (atleast_2d x)) (length (reshape_column y)), s))
   \<and> (length (atleast_2d x) = length (reshape_column y) \<longrightarrow>
        (\<forall>n m t. update s x y \<noteq> Inl (ValueError_points n m, t))
        \<and> (\<forall>n m t. fantasise s x y \<noteq> Inl (ValueError_points n m, t)))"
proof (intro conjI impI allI)
  assume ne: "length (atleast_2d x) \<noteq> length (reshape_column y)"
  then have "validate_and_transform_for_gpy_update x y
      = Inl (ValueError_points (length (atleast_2d x)) (length (reshape_column y)))"
    by (simp add: validate_Inl)
  then show "update s x y
        = Inl (ValueError_points (length (atleast_2d x)) (length (reshape_column y)), s)"
    and "fantasise s x y
        = Inl (ValueError_points (length (atleast_2d x)) (length (reshape_column y)), s)"
    by (simp_all add: update_rejected fantasise_rejected)
next
  fix n m t
  assume "length (atleast_2d x) = length (reshape_column y)"
  then have v: "validate_and_transform_for_gpy_update x y = Inr (atleast_2d x, reshape_column y)"
    by (simp add: validate_Inr)
  show "update s x y \<noteq> Inl (ValueError_points n m, t)"
    using new_min_of_error [of "alpha s" "reshape_column y"]
    by (auto simp: update_accepted [OF v] split: sum.splits prod.splits)
  show "fantasise s x y \<noteq> Inl (ValueError_points n m, t)"
    using new_min_of_error [of "alpha s" "reshape_column y"]
    by (auto simp: fantasise_accepted [OF v] split: sum.splits prod.splits)
qed

text \<open>C8, witness: two points against three values, and two points against two values.\<close>

theorem point_count_mismatch_raises_before_any_mutation_witness:
  "length (atleast_2d (X2D [7::nat, 8])) \<noteq> length (reshape_column (YArray [3] [1, 2, 3]))
   \<and> update \<lparr>gp_X = [3::nat], gp_Y = [2], alpha = Scalar 1.6, true_alpha = Scalar 1.6,
              unwarped_Y = [[2]], all_X = [[3]], fantasy_X = [], fantasy_Y = []\<rparr>
        (X2D [7, 8]) (YArray [3] [1, 2, 3])
     = Inl (ValueError_points 2 3,
            \<lparr>gp_X = [3::nat], gp_Y = [2], alpha = Scalar 1.6, true_alpha = Scalar 1.6,
              unwarped_Y = [[2]], all_X = [[3]], fantasy_X = [], fantasy_Y = []\<rparr>)
   \<and> fantasise \<lparr>gp_X = [3::nat], gp_Y = [2], alpha = Scalar 1.6, true_alpha = Scalar 1.6,
              unwarped_Y = [[2]], all_X = [[3]], fantasy_X = [], fantasy_Y = []\<rparr>
        (X2D [7, 8]) (YArray [3] [1, 2, 3])
     = Inl (ValueError_points 2 3,
            \<lparr>gp_X = [3::nat], gp_Y = [2], alpha = Scalar 1.6, true_alpha = Scalar 1.6,
              unwarped_Y = [[2]], all_X = [[3]], fantasy_X = [], fantasy_Y = []\<rparr>)
   \<and> length (atleast_2d (X2D [7::nat, 8])) = length (reshape_column (YArray [2] [1, 2]))
   \<and> (\<forall>n m t. update \<lparr>gp_X = [3::nat], gp_Y = [2], alpha = Scalar 1.6, true_alpha = Scalar 1.6,
              unwarped_Y = [[2]], all_X = [[3]], fantasy_X = [], fantasy_Y = []\<rparr>
        (X2D [7::nat, 8]) (YArray [2] [1, 2]) \<noteq> Inl (ValueError_points n m, t))"
  using point_count_mismatch_raises_before_any_mutation
          [of "X2D [7::nat, 8]" "YArray [3] [1, 2, 3]"
              "\<lparr>gp_X = [3::nat], gp_Y = [2], alpha = Scalar 1.6, true_alpha = Scalar 1.6,
                unwarped_Y = [[2]], all_X = [[3]], fantasy_X = [], fantasy_Y = []\<rparr>"]
        point_count_mismatch_raises_before_any_mutation
          [of "X2D [7::nat, 8]" "YArray [2] [1, 2]"
              "\<lparr>gp_X = [3::nat], gp_Y = [2], alpha = Scalar 1.6, true_alpha = Scalar 1.6,
                unwarped_Y = [[2]], all_X = [[3]], fantasy_X = [], fantasy_Y = []\<rparr>"]
  by (simp add: numeral_2_eq_2 numeral_3_eq_3)

text \<open>
  C10. \<^verbatim>\<open>y\<close> is reshaped into one column before the point-count check, so a \<^verbatim>\<open>y\<close> of any
  shape whose number of entries is the number of points of \<^verbatim>\<open>x\<close> passes the check in
  \<^verbatim>\<open>update\<close> and \<^verbatim>\<open>fantasise\<close>, as its entries in one column; a float passes for a
  one-point \<^verbatim>\<open>x\<close>. Neither method then raises the point-count error, and with at least one
  point neither raises at all.
\<close>

theorem matching_size_of_any_shape_is_accepted:
  assumes "wf_yin y" and "y_size y = length (atleast_2d x)"
  shows "validate_and_transform_for_gpy_update x y = Inr (atleast_2d x, reshape_column y)
     \<and> (\<forall>n m t. update s x y \<noteq> Inl (ValueError_points n m, t))
     \<and> (\<forall>n m t. fantasise s x y \<noteq> Inl (ValueError_points n m, t))
     \<and> (y_size y \<noteq> 0 \<longrightarrow> (\<exists>t. update s x y = Inr t) \<and> (\<exists>t. fantasise s x y = Inr t))"
proof -
  have len: "length (atleast_2d x) = length (reshape_column y)"
    using assms by (simp add: wf_yin_size)
  then have v: "validate_and_transform_for_gpy_update x y = Inr (atleast_2d x, reshape_column y)"
    by (simp add: validate_Inr)
  have no_value_error:
    "(\<forall>n m t. update s x y \<noteq> Inl (ValueError_points n m, t))
     \<and> (\<forall>n m t. fantasise s x y \<noteq> Inl (ValueError_points n m, t))"
    using new_min_of_error [of "alpha s" "reshape_column y"]
    by (auto simp: update_accepted [OF v] fantasise_accepted [OF v] split: sum.splits prod.splits)
  have "(\<exists>t. update s x y = Inr t) \<and> (\<exists>t. fantasise s x y = Inr t)" if "y_size y \<noteq> 0"
  proof -
    have "reshape_column y \<noteq> []" using that assms(1) wf_yin_size [of y] by auto
    then show ?thesis
      by (simp add: update_accepted [OF v] fantasise_accepted [OF v] new_min_of_nonempty)
  qed
  with v no_value_error show ?thesis by blast
qed

text \<open>
  C10, witness: a row vector of shape \<^verbatim>\<open>(1, 3)\<close> for three points, and a float for a 1D
  \<^verbatim>\<open>x\<close>.
\<close>

theorem matching_size_of_any_shape_is_accepted_witness:
  "wf_yin (YArray [1, 3] [4, 5, 6]) \<and> y_size (YArray [1, 3] [4, 5, 6]) = length (atleast_2d (X2D [7::nat, 8, 9]))
   \<and> validate_and_transform_for_gpy_update (X2D [7::nat, 8, 9]) (YArray [1, 3] [4, 5, 6])
       = Inr ([7, 8, 9], [4, 5, 6])
   \<and> wf_yin (YFloat 4) \<and> y_size (YFloat 4) = length (atleast_2d (X1D (7::nat)))
   \<and> validate_and_transform_for_gpy_update (X1D (7::nat)) (YFloat 4) = Inr ([7], [4])
   \<and> (\<exists>t. update \<lparr>gp_X = [3::nat], gp_Y = [2], alpha = Scalar 1.6, true_alpha = Scalar 1.6,
              unwarped_Y = [[2]], all_X = [[3]], fantasy_X = [], fantasy_Y = []\<rparr>
            (X1D (7::nat)) (YFloat 4) = Inr t)"
proof -
  have a: "wf_yin (YArray [1, 3] [4, 5, 6])"
    and b: "y_size (YArray [1, 3] [4, 5, 6]) = length (atleast_2d (X2D [7::nat, 8, 9]))"
    and c: "wf_yin (YFloat 4)"
    and d: "y_size (YFloat 4) = length (atleast_2d (X1D (7::nat)))"
    by simp_all
  show ?thesis
    using matching_size_of_any_shape_is_accepted [OF a b]
          matching_size_of_any_shape_is_accepted [OF c d,
            of "\<lparr>gp_X = [3::nat], gp_Y = [2], alpha = Scalar 1.6, true_alpha = Scalar 1.6,
              unwarped_Y = [[2]], all_X = [[3]], fantasy_X = [], fantasy_Y = []\<rparr>"]
    by simp
qed

text \<open>
  C3 (as amended). In every state built by \<^verbatim>\<open>__init__\<close> and any calls of \<^verbatim>\<open>update\<close>,
  \<^verbatim>\<open>fantasise\<close> and \<^verbatim>\<open>remove_fantasies\<close>, the real history holds the half squares
  \<open>Y\<^sup>2 / 2\<close> of the construction-time targets followed by the raw \<^verbatim>\<open>y\<close> of every accepted
  \<^verbatim>\<open>update\<close>; \<^verbatim>\<open>_alpha\<close> is at most 0.8 times every fantasy value held; and, when no
  \<^verbatim>\<open>update\<close> was called over fantasy batches, \<^verbatim>\<open>_alpha\<close> is at most 0.8 times every value
  of the real history (the half square of a construction-time target, the value itself
  for an \<^verbatim>\<open>update\<close>).
\<close>

theorem alpha_bounds_stored_values:
  assumes "init X Y = Inr s0"
  shows "unwarped_Y (run s0 calls) = map (\<lambda>v. v\<^sup>2 / 2) Y # accepted_update_batches calls
     \<and> (no_update_over_fantasies s0 calls \<longrightarrow>
          alpha_bounded_by (value_of (alpha (run s0 calls))) (unwarped_Y (run s0 calls)))
     \<and> alpha_bounded_by (value_of (alpha (run s0 calls))) (fantasy_Y (run s0 calls))"
proof (intro conjI impI)
  show "unwarped_Y (run s0 calls) = map (\<lambda>v. v\<^sup>2 / 2) Y # accepted_update_batches calls"
    by (simp add: unwarped_Y_run init_state(1) [OF assms])
  have a: "offsets_inv (run s0 calls)"
    using init_invariants(1) [OF assms] by (rule offsets_inv_run)
  then show "alpha_bounded_by (value_of (alpha (run s0 calls))) (fantasy_Y (run s0 calls))"
    by (simp add: offsets_inv_def)
  assume "no_update_over_fantasies s0 calls"
  with init_invariants [OF assms] have "real_bound_inv (run s0 calls)"
    by (rule real_bound_inv_run)
  then show "alpha_bounded_by (value_of (alpha (run s0 calls))) (unwarped_Y (run s0 calls))"
    using a by (auto simp: real_bound_inv_def offsets_inv_def intro: alpha_bounded_by_mono)
qed

text \<open>
  C3, witness: one training target 2, an update with the value 1, a fantasy with the
  value 0.5; the offset ends at 0.4.
\<close>

theorem alpha_bounds_stored_values_witness:
  "init [3::nat] [2]
     = Inr \<lparr>gp_X = [3], gp_Y = [2], alpha = Scalar 1.6, true_alpha = Scalar 1.6,
            unwarped_Y = [[2]], all_X = [[3]], fantasy_X = [], fantasy_Y = []\<rparr>
   \<and> no_update_over_fantasies
        \<lparr>gp_X = [3::nat], gp_Y = [2], alpha = Scalar 1.6, true_alpha = Scalar 1.6,
          unwarped_Y = [[2]], all_X = [[3]], fantasy_X = [], fantasy_Y = []\<rparr>
        [Update (X2D [7]) (YArray [1] [1]), Fantasise (X2D [8]) (YArray [1] [0.5])]
   \<and> unwarped_Y (run \<lparr>gp_X = [3::nat], gp_Y = [2], alpha = Scalar 1.6, true_alpha = Scalar 1.6,
          unwarped_Y = [[2]], all_X = [[3]], fantasy_X = [], fantasy_Y = []\<rparr>
        [Update (X2D [7]) (YArray [1] [1]), Fantasise (X2D [8]) (YArray [1] [0.5])])
      = [[2], [1]]
   \<and> alpha_bounded_by (value_of (alpha (run
        \<lparr>gp_X = [3::nat], gp_Y = [2], alpha = Scalar 1.6, true_alpha = Scalar 1.6,
          unwarped_Y = [[2]], all_X = [[3]], fantasy_X = [], fantasy_Y = []\<rparr>
        [Update (X2D [7]) (YArray [1] [1]), Fantasise (X2D [8]) (YArray [1] [0.5])])))
        [[2], [1]]
   \<and> value_of (alpha (run
        \<lparr>gp_X = [3::nat], gp_Y = [2], alpha = Scalar 1.6, true_alpha = Scalar 1.6,
          unwarped_Y = [[2]], all_X = [[3]], fantasy_X = [], fantasy_Y = []\<rparr>
        [Update (X2D [7]) (YArray [1] [1]), Fantasise (X2D [8]) (YArray [1] [0.5])])) = 0.4
   \<and> fantasy_Y (run
        \<lparr>gp_X = [3::nat], gp_Y = [2], alpha = Scalar 1.6, true_alpha = Scalar 1.6,
          unwarped_Y = [[2]], all_X = [[3]], fantasy_X = [], fantasy_Y = []\<rparr>
        [Update (X2D [7]) (YArray [1] [1]), Fantasise (X2D [8]) (YArray [1] [0.5])]) = [[0.5]]"
proof -
  let ?s = "\<lparr>gp_X = [3::nat], gp_Y = [2], alpha = Scalar 1.6, true_alpha = Scalar 1.6,
          unwarped_Y = [[2]], all_X = [[3]], fantasy_X = [], fantasy_Y = []\<rparr>"
  let ?cs = "[Update (X2D [7::nat]) (YArray [1] [1]), Fantasise (X2D [8]) (YArray [1] [0.5])]"
  have g: "no_update_over_fantasies ?s ?cs" by simp
  show ?thesis
    using alpha_bounds_stored_values [OF init_one_point, of ?cs] g
    by (simp add: init_one_point update_one_point fantasise_one_point validate_one_point)
qed

text \<open>
  C3, counterexample to the bound by half squares for every real observation: after the
  training target 2 and an update with the value 1 the offset is 0.8, above
  \<open>0.8 * (1\<^sup>2 / 2) = 0.4\<close>.
\<close>

theorem alpha_bound_half_square_counterexample:
  "init [3::nat] [2]
     = Inr \<lparr>gp_X = [3], gp_Y = [2], alpha = Scalar 1.6, true_alpha = Scalar 1.6,
            unwarped_Y = [[2]], all_X = [[3]], fantasy_X = [], fantasy_Y = []\<rparr>
   \<and> value_of (alpha (run
        \<lparr>gp_X = [3::nat], gp_Y = [2], alpha = Scalar 1.6, true_alpha = Scalar 1.6,
          unwarped_Y = [[2]], all_X = [[3]], fantasy_X = [], fantasy_Y = []\<rparr>
        [Update (X2D [7]) (YArray [1] [1])])) = 0.8
   \<and> \<not> value_of (alpha (run
        \<lparr>gp_X = [3::nat], gp_Y = [2], alpha = Scalar 1.6, true_alpha = Scalar 1.6,
          unwarped_Y = [[2]], all_X = [[3]], fantasy_X = [], fantasy_Y = []\<rparr>
        [Update (X2D [7]) (YArray [1] [1])])) \<le> 0.8 * (1\<^sup>2 / 2)"
  by (simp add: init_one_point update_one_point)

text \<open>
  C7. From any state built by \<^verbatim>\<open>__init__\<close> and any calls, a sequence of \<^verbatim>\<open>update\<close> calls
  leaves \<^verbatim>\<open>_alpha\<close> and \<^verbatim>\<open>_true_alpha\<close> at most where they were (so each call leaves them
  unchanged or lowers them), and after \<^verbatim>\<open>remove_fantasies\<close> the two are the same object.
\<close>

theorem alpha_never_increases_under_update:
  assumes "init X Y = Inr s0"
  shows "value_of (alpha (run (run s0 calls) (map (\<lambda>(x, y). Update x y) batches)))
           \<le> value_of (alpha (run s0 calls))
     \<and> value_of (true_alpha (run (run s0 calls) (map (\<lambda>(x, y). Update x y) batches)))
           \<le> value_of (true_alpha (run s0 calls))
     \<and> alpha (step (run s0 calls) RemoveFantasies)
           = true_alpha (step (run s0 calls) RemoveFantasies)"
proof -
  have "offsets_inv (run s0 calls)"
    using init_invariants(1) [OF assms] by (rule offsets_inv_run)
  then show ?thesis
    using updates_monotone [of "run s0 calls" batches]
      remove_fantasies_effect(2,3) [OF refl, of "run s0 calls"]
    by simp
qed

text \<open>
  C7, witness: after a fantasy that lowers \<^verbatim>\<open>_alpha\<close> to 1.2, updates with the values 1
  and 3 leave both offsets at 0.8.
\<close>

theorem alpha_never_increases_under_update_witness:
  "init [3::nat] [2]
     = Inr \<lparr>gp_X = [3], gp_Y = [2], alpha = Scalar 1.6, true_alpha = Scalar 1.6,
            unwarped_Y = [[2]], all_X = [[3]], fantasy_X = [], fantasy_Y = []\<rparr>
   \<and> value_of (alpha (run (run
        \<lparr>gp_X = [3::nat], gp_Y = [2], alpha = Scalar 1.6, true_alpha = Scalar 1.6,
          unwarped_Y = [[2]], all_X = [[3]], fantasy_X = [], fantasy_Y = []\<rparr>
        [Fantasise (X2D [7]) (YArray [1] [1.5])])
        (map (\<lambda>(x, y). Update x y) [(X2D [8], YArray [1] [1]), (X2D [9], YArray [1] [3])])))
      \<le> value_of (alpha (run
        \<lparr>gp_X = [3::nat], gp_Y = [2], alpha = Scalar 1.6, true_alpha = Scalar 1.6,
          unwarped_Y = [[2]], all_X = [[3]], fantasy_X = [], fantasy_Y = []\<rparr>
        [Fantasise (X2D [7]) (YArray [1] [1.5])]))
   \<and> value_of (alpha (run (run
        \<lparr>gp_X = [3::nat], gp_Y = [2], alpha = Scalar 1.6, true_alpha = Scalar 1.6,
          unwarped_Y = [[2]], all_X = [[3]], fantasy_X = [], fantasy_Y = []\<rparr>
        [Fantasise (X2D [7]) (YArray [1] [1.5])])
        (map (\<lambda>(x, y). Update x y) [(X2D [8], YArray [1] [1]), (X2D [9], YArray [1] [3])])))
      = 0.8
   \<and> value_of (true_alpha (run (run
        \<lparr>gp_X = [3::nat], gp_Y = [2], alpha = Scalar 1.6, true_alpha = Scalar 1.6,
          unwarped_Y = [[2]], all_X = [[3]], fantasy_X = [], fantasy_Y = []\<rparr>
        [Fantasise (X2D [7]) (YArray [1] [1.5])])
        (map (\<lambda>(x, y). Update x y) [(X2D [8], YArray [1] [1]), (X2D [9], YArray [1] [3])])))
      = 0.8"
  using alpha_never_increases_under_update [OF init_one_point,
          of "[Fantasise (X2D [7]) (YArray [1] [1.5])]"
             "[(X2D [8], YArray [1] [1]), (X2D [9], YArray [1] [3])]"]
  by (simp add: init_one_point update_one_point fantasise_one_point)

text \<open>
  C1. The claim: in every reachable state the model's training set is the warp, under
  the current offset, of the real history followed by the fantasy history, in particular
  after a real update that lowers the offset while fantasy data is present. The code at
  that input: after one training target 2, an update with 1.5 (which re-warps all data)
  and a fantasy with 3, the model agrees with the histories; a real update with the value
  1 then lowers the offset to 0.8 and \<^verbatim>\<open>_update_alpha_and_reprocess_data\<close> resubmits the
  three real points only, while the fantasy point stays in the fantasy history. The
  model no longer agrees with the histories.
\<close>

theorem update_over_fantasies_breaks_warp_consistency:
  "init [3::nat] [2]
     = Inr \<lparr>gp_X = [3], gp_Y = [2], alpha = Scalar 1.6, true_alpha = Scalar 1.6,
            unwarped_Y = [[2]], all_X = [[3]], fantasy_X = [], fantasy_Y = []\<rparr>
   \<and> warp_consistent (run
        \<lparr>gp_X = [3::nat], gp_Y = [2], alpha = Scalar 1.6, true_alpha = Scalar 1.6,
          unwarped_Y = [[2]], all_X = [[3]], fantasy_X = [], fantasy_Y = []\<rparr>
        [Update (X2D [6]) (YArray [1] [1.5]), Fantasise (X2D [7]) (YArray [1] [3])])
   \<and> run \<lparr>gp_X = [3::nat], gp_Y = [2], alpha = Scalar 1.6, true_alpha = Scalar 1.6,
          unwarped_Y = [[2]], all_X = [[3]], fantasy_X = [], fantasy_Y = []\<rparr>
        [Update (X2D [6]) (YArray [1] [1.5]), Fantasise (X2D [7]) (YArray [1] [3]),
         Update (X2D [8]) (YArray [1] [1])]
     = \<lparr>gp_X = [3, 6, 8], gp_Y = [sqrt 2.4, sqrt 1.4, sqrt 0.4],
        alpha = Row 0.8, true_alpha = Row 0.8,
        unwarped_Y = [[2], [1.5], [1]], all_X = [[3], [6], [8]],
        fantasy_X = [[7]], fantasy_Y = [[3]]\<rparr>
   \<and> \<not> warp_consistent (run
        \<lparr>gp_X = [3::nat], gp_Y = [2], alpha = Scalar 1.6, true_alpha = Scalar 1.6,
          unwarped_Y = [[2]], all_X = [[3]], fantasy_X = [], fantasy_Y = []\<rparr>
        [Update (X2D [6]) (YArray [1] [1.5]), Fantasise (X2D [7]) (YArray [1] [3]),
         Update (X2D [8]) (YArray [1] [1])])"
  by (simp add: init_one_point update_one_point fantasise_one_point warp_consistent_def
        warp_fun)

text \<open>
  C4. For a query \<^verbatim>\<open>x\<close> of the model's dimensionality, where the engine returns the
  means \<open>m\<close> and the variances \<open>v\<close>, one of each per point,
  \<^verbatim>\<open>WsabiLGP.posterior_mean_and_variance\<close> returns, point by point, the mean
  \<open>alpha + m\<^sup>2 / 2\<close> and the variance \<open>v * m\<^sup>2\<close>.
\<close>

theorem warped_mean_and_variance:
  assumes "valid_dimensions e x" and "predict e x = (m, v)" and "length v = length m"
  shows "\<exists>mean variance.
           posterior_mean_and_variance e s x = Inr (mean, variance)
           \<and> length mean = length m \<and> length variance = length m
           \<and> (\<forall>i<length m. mean ! i = value_of (alpha s) + (m ! i)\<^sup>2 / 2
                            \<and> variance ! i = v ! i * (m ! i)\<^sup>2)"
  using assms
  by (simp add: posterior_mean_and_variance_def gp_posterior_mean_and_variance_def
        validate_dimensions_def)

text \<open>
  C4, witness: the offset 1.6 and two points with the means 2, 1 and the variances 3, 5.
\<close>

theorem warped_mean_and_variance_witness:
  "valid_dimensions
     \<lparr>valid_dimensions = (\<lambda>x::nat. True), predict = (\<lambda>x. ([2, 1], [3, 5])),
      predictive_gradients = (\<lambda>x. (\<lambda>i j. 1, \<lambda>i j. 1)), gpy_Y = [1, 2],
      woodbury_inv = (\<lambda>j m. if j = m then 1 else 0), kern_K = (\<lambda>x i m. 1),
      kernel_jacobian = (\<lambda>x i l j. 1), kernel_hessian = (\<lambda>x i l j k. 1),
      diagonal_hessian = (\<lambda>x i j k. 0)\<rparr> 0
   \<and> posterior_mean_and_variance
     \<lparr>valid_dimensions = (\<lambda>x::nat. True), predict = (\<lambda>x. ([2, 1], [3, 5])),
      predictive_gradients = (\<lambda>x. (\<lambda>i j. 1, \<lambda>i j. 1)), gpy_Y = [1, 2],
      woodbury_inv = (\<lambda>j m. if j = m then 1 else 0), kern_K = (\<lambda>x i m. 1),
      kernel_jacobian = (\<lambda>x i l j. 1), kernel_hessian = (\<lambda>x i l j k. 1),
      diagonal_hessian = (\<lambda>x i j k. 0)\<rparr>
     \<lparr>gp_X = [3::nat], gp_Y = [2], alpha = Scalar 1.6, true_alpha = Scalar 1.6,
      unwarped_Y = [[2]], all_X = [[3]], fantasy_X = [], fantasy_Y = []\<rparr> 0
     = Inr ([3.6, 2.1], [12, 5])"
proof -
  let ?e = "\<lparr>valid_dimensions = (\<lambda>x::nat. True), predict = (\<lambda>x. ([2, 1], [3, 5])),
      predictive_gradients = (\<lambda>x. (\<lambda>i j. 1, \<lambda>i j. 1)), gpy_Y = [1, 2],
      woodbury_inv = (\<lambda>j m. if j = m then 1 else 0), kern_K = (\<lambda>x i m. 1),
      kernel_jacobian = (\<lambda>x i l j. 1), kernel_hessian = (\<lambda>x i l j k. 1),
      diagonal_hessian = (\<lambda>x i j k. 0)\<rparr>"
  let ?s = "\<lparr>gp_X = [3::nat], gp_Y = [2], alpha = Scalar 1.6, true_alpha = Scalar 1.6,
      unwarped_Y = [[2]], all_X = [[3]], fantasy_X = [], fantasy_Y = []\<rparr>"
  have a: "valid_dimensions ?e 0" and b: "predict ?e 0 = ([2, 1], [3, 5])"
    and c: "length [3::real, 5] = length [2::real, 1]"
    by simp_all
  obtain mean variance where r: "posterior_mean_and_variance ?e ?s 0 = Inr (mean, variance)"
    and l: "length mean = 2" "length variance = 2"
    and v: "\<forall>i<2. mean ! i = 1.6 + ([2, 1] ! i)\<^sup>2 / 2 \<and> variance ! i = [3, 5] ! i * ([2, 1] ! i)\<^sup>2"
    using warped_mean_and_variance [OF a b c, of ?s] by auto
  from v have "mean ! 0 = 3.6" "mean ! 1 = 2.1" "variance ! 0 = 12" "variance ! 1 = 5"
    by simp_all
  with l have "mean = [3.6, 2.1]" "variance = [12, 5]"
    by (auto simp: list_eq_iff_nth_eq less_Suc_eq numeral_2_eq_2)
  with r a show ?thesis by simp
qed

text \<open>
  C5. For a query of the model's dimensionality, \<^verbatim>\<open>GP.posterior_hessians\<close> returns the
  mean hessian \<open>\<Sum>j. H[i,j,k,l] (Kinv Yd)[j]\<close> and the variance hessian
  \<open>diagonalHessian[i,j,k] - (Q[i,j,k] + Q[i,k,j])\<close> with \<open>Q\<close> as the specification
  writes it: the three \<^verbatim>\<open>einsum\<close> contractions and the \<^verbatim>\<open>swapaxes\<close> of the source compute
  these sums.
\<close>

theorem posterior_hessians_formulas:
  assumes "valid_dimensions e x"
  shows "posterior_hessians e x
     = Inr (spec_mean_hessian (length (gpy_Y e)) (kernel_hessian e x) (woodbury_inv e) (Y_D e),
            spec_variance_hessian (length (gpy_Y e)) (diagonal_hessian e x) (kernel_hessian e x)
              (kernel_jacobian e x) (woodbury_inv e) (kern_K e x))"
proof -
  have "mean_hessian e x
      = spec_mean_hessian (length (gpy_Y e)) (kernel_hessian e x) (woodbury_inv e) (Y_D e)"
    by (intro ext) (rule mean_hessian_spec)
  moreover have "variance_hessian e x
      = spec_variance_hessian (length (gpy_Y e)) (diagonal_hessian e x) (kernel_hessian e x)
          (kernel_jacobian e x) (woodbury_inv e) (kern_K e x)"
    by (intro ext) (rule variance_hessian_spec)
  ultimately show ?thesis using assms
    by (simp add: posterior_hessians_def validate_dimensions_def)
qed

text \<open>
  C5, witness: two training points with the targets 1 and 2, the identity as inverse
  covariance and all kernel derivatives 1: the mean hessian is 3, the variance hessian
  \<open>0 - (4 + 4)\<close>.
\<close>

theorem posterior_hessians_formulas_witness:
  "valid_dimensions
     \<lparr>valid_dimensions = (\<lambda>x::nat. True), predict = (\<lambda>x. ([2, 1], [3, 5])),
      predictive_gradients = (\<lambda>x. (\<lambda>i j. 1, \<lambda>i j. 1)), gpy_Y = [1, 2],
      woodbury_inv = (\<lambda>j m. if j = m then 1 else 0), kern_K = (\<lambda>x i m. 1),
      kernel_jacobian = (\<lambda>x i l j. 1), kernel_hessian = (\<lambda>x i l j k. 1),
      diagonal_hessian = (\<lambda>x i j k. 0)\<rparr> 0
   \<and> (case posterior_hessians
     \<lparr>valid_dimensions = (\<lambda>x::nat. True), predict = (\<lambda>x. ([2, 1], [3, 5])),
      predictive_gradients = (\<lambda>x. (\<lambda>i j. 1, \<lambda>i j. 1)), gpy_Y = [1, 2],
      woodbury_inv = (\<lambda>j m. if j = m then 1 else 0), kern_K = (\<lambda>x i m. 1),
      kernel_jacobian = (\<lambda>x i l j. 1), kernel_hessian = (\<lambda>x i l j k. 1),
      diagonal_hessian = (\<lambda>x i j k. 0)\<rparr> 0 of
        Inl err \<Rightarrow> False
      | Inr (mh, vh) \<Rightarrow> mh 0 0 0 = 3 \<and> vh 0 0 0 = - 8)"
proof -
  let ?e = "\<lparr>valid_dimensions = (\<lambda>x::nat. True), predict = (\<lambda>x. ([2, 1], [3, 5])),
      predictive_gradients = (\<lambda>x. (\<lambda>i j. 1, \<lambda>i j. 1)), gpy_Y = [1, 2],
      woodbury_inv = (\<lambda>j m. if j = m then 1 else 0), kern_K = (\<lambda>x i m. 1),
      kernel_jacobian = (\<lambda>x i l j. 1), kernel_hessian = (\<lambda>x i l j k. 1),
      diagonal_hessian = (\<lambda>x i j k. 0)\<rparr>"
  have a: "valid_dimensions ?e 0" by simp
  show ?thesis
    using posterior_hessians_formulas [OF a] a
    by (simp add: spec_mean_hessian_def spec_Kinv_Yd_def spec_variance_hessian_def
          spec_Q_nested Y_D_def lessThan_Suc)
qed

text \<open>
  C6. For a query of the model's dimensionality and every pair of dimensions, the
  variance hessian of \<^verbatim>\<open>GP.posterior_hessians\<close> and the hessian of
  \<^verbatim>\<open>WsabiLGP.posterior_variance_hessian\<close> are symmetric in their last two axes. The
  data-dependent part \<open>Q + Q\<^sup>T\<close> is symmetric by construction, whatever the kernel
  collaborator returns. The diagonal hessian and the cross-covariance hessian \<open>H\<close> are
  the collaborator's second derivatives of the kernel, symmetric in their last two axes:
  the engine needs this of the diagonal hessian, the warped posterior of both.
\<close>

theorem variance_hessians_symmetric:
  assumes "valid_dimensions e x"
  shows "(\<forall>i j k. data_dependent_hessian e x i j k = data_dependent_hessian e x i k j)
     \<and> ((\<forall>i j k. diagonal_hessian e x i j k = diagonal_hessian e x i k j) \<longrightarrow>
          (\<exists>mh vh. posterior_hessians e x = Inr (mh, vh) \<and> (\<forall>i j k. vh i j k = vh i k j)))
     \<and> ((\<forall>i j k. diagonal_hessian e x i j k = diagonal_hessian e x i k j)
          \<and> (\<forall>i n j k. kernel_hessian e x i n j k = kernel_hessian e x i n k j) \<longrightarrow>
          (\<exists>h. posterior_variance_hessian e x = Inr h \<and> (\<forall>i j k. h i j k = h i k j)))"
proof (intro conjI impI allI)
  fix i j k
  show "data_dependent_hessian e x i j k = data_dependent_hessian e x i k j"
    by (rule data_dependent_hessian_symmetric)
next
  assume d: "\<forall>i j k. diagonal_hessian e x i j k = diagonal_hessian e x i k j"
  have "posterior_hessians e x = Inr (mean_hessian e x, variance_hessian e x)"
    using assms by (simp add: posterior_hessians_def validate_dimensions_def)
  moreover have "\<forall>i j k. variance_hessian e x i j k = variance_hessian e x i k j"
    using d by (simp add: variance_hessian_symmetric)
  ultimately show "\<exists>mh vh. posterior_hessians e x = Inr (mh, vh) \<and> (\<forall>i j k. vh i j k = vh i k j)"
    by blast
next
  assume dh: "(\<forall>i j k. diagonal_hessian e x i j k = diagonal_hessian e x i k j)
          \<and> (\<forall>i n j k. kernel_hessian e x i n j k = kernel_hessian e x i n k j)"
  obtain gp_mean gp_variance where p: "predict e x = (gp_mean, gp_variance)"
    by (cases "predict e x")
  obtain mj vj where g: "predictive_gradients e x = (mj, vj)"
    by (cases "predictive_gradients e x")
  let ?h = "hessian_of_f_squared_times_g (\<lambda>i. gp_mean ! i) mj (mean_hessian e x)
              (\<lambda>i. gp_variance ! i) vj (variance_hessian e x)"
  have "posterior_variance_hessian e x = Inr ?h"
    using assms p g
    by (simp add: posterior_variance_hessian_def gp_posterior_mean_and_variance_def
          gp_posterior_jacobians_def posterior_hessians_def validate_dimensions_def)
  moreover have "?h i j k = ?h i k j" for i j k
    using dh
    by (intro hessian_of_f_squared_times_g_symmetric mean_hessian_symmetric
          variance_hessian_symmetric) simp_all
  ultimately show "\<exists>h. posterior_variance_hessian e x = Inr h \<and> (\<forall>i j k. h i j k = h i k j)"
    by blast
qed

text \<open>C6, witness: an engine whose collaborator returns symmetric hessians.\<close>

theorem variance_hessians_symmetric_witness:
  "valid_dimensions
     \<lparr>valid_dimensions = (\<lambda>x::nat. True), predict = (\<lambda>x. ([2, 1], [3, 5])),
      predictive_gradients = (\<lambda>x. (\<lambda>i j. 1, \<lambda>i j. 1)), gpy_Y = [1, 2],
      woodbury_inv = (\<lambda>j m. if j = m then 1 else 0), kern_K = (\<lambda>x i m. 1),
      kernel_jacobian = (\<lambda>x i l j. real j), kernel_hessian = (\<lambda>x i l j k. 1),
      diagonal_hessian = (\<lambda>x i j k. 0)\<rparr> 0
   \<and> (\<forall>i j k. diagonal_hessian
     \<lparr>valid_dimensions = (\<lambda>x::nat. True), predict = (\<lambda>x. ([2, 1], [3, 5])),
      predictive_gradients = (\<lambda>x. (\<lambda>i j. 1, \<lambda>i j. 1)), gpy_Y = [1, 2],
      woodbury_inv = (\<lambda>j m. if j = m then 1 else 0), kern_K = (\<lambda>x i m. 1),
      kernel_jacobian = (\<lambda>x i l j. real j), kernel_hessian = (\<lambda>x i l j k. 1),
      diagonal_hessian = (\<lambda>x i j k. 0)\<rparr> 0 i j k
     = diagonal_hessian
     \<lparr>valid_dimensions = (\<lambda>x::nat. True), predict = (\<lambda>x. ([2, 1], [3, 5])),
      predictive_gradients = (\<lambda>x. (\<lambda>i j. 1, \<lambda>i j. 1)), gpy_Y = [1, 2],
      woodbury_inv = (\<lambda>j m. if j = m then 1 else 0), kern_K = (\<lambda>x i m. 1),
      kernel_jacobian = (\<lambda>x i l j. real j), kernel_hessian = (\<lambda>x i l j k. 1),
      diagonal_hessian = (\<lambda>x i j k. 0)\<rparr> 0 i k j)
   \<and> (\<exists>mh vh. posterior_hessians
     \<lparr>valid_dimensions = (\<lambda>x::nat. True), predict = (\<lambda>x. ([2, 1], [3, 5])),
      predictive_gradients = (\<lambda>x. (\<lambda>i j. 1, \<lambda>i j. 1)), gpy_Y = [1, 2],
      woodbury_inv = (\<lambda>j m. if j = m then 1 else 0), kern_K = (\<lambda>x i m. 1),
      kernel_jacobian = (\<lambda>x i l j. real j), kernel_hessian = (\<lambda>x i l j k. 1),
      diagonal_hessian = (\<lambda>x i j k. 0)\<rparr> 0 = Inr (mh, vh) \<and> vh 0 0 1 = vh 0 1 0)
   \<and> (\<exists>h. posterior_variance_hessian
     \<lparr>valid_dimensions = (\<lambda>x::nat. True), predict = (\<lambda>x. ([2, 1], [3, 5])),
      predictive_gradients = (\<lambda>x. (\<lambda>i j. 1, \<lambda>i j. 1)), gpy_Y = [1, 2],
      woodbury_inv = (\<lambda>j m. if j = m then 1 else 0), kern_K = (\<lambda>x i m. 1),
      kernel_jacobian = (\<lambda>x i l j. real j), kernel_hessian = (\<lambda>x i l j k. 1),
      diagonal_hessian = (\<lambda>x i j k. 0)\<rparr> 0 = Inr h \<and> h 0 0 1 = h 0 1 0)"
proof -
  let ?e = "\<lparr>valid_dimensions = (\<lambda>x::nat. True), predict = (\<lambda>x. ([2, 1], [3, 5])),
      predictive_gradients = (\<lambda>x. (\<lambda>i j. 1, \<lambda>i j. 1)), gpy_Y = [1, 2],
      woodbury_inv = (\<lambda>j m. if j = m then 1 else 0), kern_K = (\<lambda>x i m. 1),
      kernel_jacobian = (\<lambda>x i l j. real j), kernel_hessian = (\<lambda>x i l j k. 1),
      diagonal_hessian = (\<lambda>x i j k. 0)\<rparr>"
  have a: "valid_dimensions ?e 0" by simp
  have d: "\<forall>i j k. diagonal_hessian ?e 0 i j k = diagonal_hessian ?e 0 i k j" by simp
  have h: "\<forall>i n j k. kernel_hessian ?e 0 i n j k = kernel_hessian ?e 0 i n k j" by simp
  from variance_hessians_symmetric [OF a] d h
  have "(\<exists>mh vh. posterior_hessians ?e 0 = Inr (mh, vh) \<and> (\<forall>i j k. vh i j k = vh i k j))"
    and "(\<exists>h. posterior_variance_hessian ?e 0 = Inr h \<and> (\<forall>i j k. h i j k = h i k j))"
    by blast+
  then have "(\<exists>mh vh. posterior_hessians ?e 0 = Inr (mh, vh) \<and> vh 0 0 1 = vh 0 1 0)"
    and "(\<exists>h. posterior_variance_hessian ?e 0 = Inr h \<and> h 0 0 1 = h 0 1 0)"
    by blast+
  with a d show ?thesis by blast
qed

end
